theory Spec2Isabelle
  imports
    Complex_Main
    "HOL-Library.Product_Lexorder"
    "HOL-Library.List_Lexorder"
    "HOL-Library.Char_ord"
begin

section \<open>Python values, exceptions and the outside world\<close>

text \<open>
  The two command-line scripts of the repository are embedded as functions
  from their inputs and the state of the outside world to an outcome and the
  new state. An exception that leaves \<open>main\<close> is the left injection of the
  outcome; a normal return is the right injection.
\<close>

datatype error =
    SystemExit int
  | AssertionError string
  | FileNotFoundError string
  | IsADirectoryError string
  | KeyError string
  | ValueError string
  | TypeError string
  | ConfigurationError string
  | Raised string

datatype level = INFO | WARNING

text \<open>A Python \<open>float\<close> as far as the scripts look at it: a finite value,
  an infinity or not-a-number (\<open>math.inf\<close> is \<open>PosInf\<close>).\<close>

datatype pyfloat = Finite real | PosInf | NegInf | NaN

text \<open>
  The world a script runs in: the files by path with their text, the
  directories, and the lines handed to \<open>LOGGER\<close>.
\<close>

record world =
  files :: "string \<rightharpoonup> string"
  dirs :: "string set"
  logger :: "(level \<times> string) list"

definition LOGGER_info :: "string \<Rightarrow> world \<Rightarrow> world" where
  "LOGGER_info msg w = w\<lparr>logger := logger w @ [(INFO, msg)]\<rparr>"

definition LOGGER_warning :: "string \<Rightarrow> world \<Rightarrow> world" where
  "LOGGER_warning msg w = w\<lparr>logger := logger w @ [(WARNING, msg)]\<rparr>"

text \<open>\<open>os.path.join a b\<close> (POSIX) for two components.\<close>

definition path_join :: "string \<Rightarrow> string \<Rightarrow> string" where
  "path_join a b =
     (if b \<noteq> [] \<and> hd b = CHR ''/'' then b
      else if a = [] \<or> last a = CHR ''/'' then a @ b
      else a @ ''/'' @ b)"

text \<open>
  Modelled from the spec: \<open>data_store\<close> (\<open>giga.data.store.stores.COUNTRY_DATA_STORE\<close>)
  is not among the sources. It is taken as a store of files by path:
  \<open>is_file\<close> holds of the paths that name a file, and opening a path in append
  mode and closing it at once leaves an existing file as it is and creates an
  absent one empty (section 6: "produce an empty output artifact").
\<close>

definition is_file :: "world \<Rightarrow> string \<Rightarrow> bool" where
  "is_file w p = (p \<in> dom (files w))"

definition open_append_close :: "string \<Rightarrow> world \<Rightarrow> world" where
  "open_append_close p w =
     (if p \<in> dom (files w) then w else w\<lparr>files := (files w)(p \<mapsto> [])\<rparr>)"

definition write_file :: "string \<Rightarrow> string \<Rightarrow> world \<Rightarrow> world" where
  "write_file p text w = w\<lparr>files := (files w)(p \<mapsto> text)\<rparr>"

section \<open>The cache builder: \<open>bin/create_cellular_distance_cache\<close>\<close>

subsection \<open>Data\<close>

record school =
  giga_id :: string
  school_lat :: real
  school_lon :: real
  connected :: bool

record cell_tower =
  tower_id :: string
  tower_lat :: real
  tower_lon :: real

record coordinate =
  coordinate_id :: string
  lat :: real
  lon :: real

record neighbor_match =
  source_id :: string
  target_id :: string
  distance_meters :: real

text \<open>A Python \<open>dict\<close> with string keys: an association list in insertion
  order, one entry per key.\<close>

type_synonym distances = "(string \<times> neighbor_match list) list"

type_synonym single_cache = "(string \<times> neighbor_match) list"

text \<open>The keyword arguments of \<open>VectorizedDistanceModel(...)\<close>.\<close>

record model =
  progress_bar :: bool
  model_n_nearest_neighbors :: int
  model_maximum_distance :: pyfloat

text \<open>
  Modelled from the spec: \<open>to_coordinates\<close> of \<open>GigaSchoolTable\<close> and of
  \<open>CellTowerTable\<close> are not among the sources. Section 6: a coordinate
  collection is derived from the table, an identifier with latitude and
  longitude per row, in the order of the table.
\<close>

definition to_coordinates :: "school list \<Rightarrow> coordinate list" where
  "to_coordinates schools =
     map (\<lambda>s. \<lparr>coordinate_id = giga_id s, lat = school_lat s, lon = school_lon s\<rparr>) schools"

definition tower_to_coordinates :: "cell_tower list \<Rightarrow> coordinate list" where
  "tower_to_coordinates towers =
     map (\<lambda>t. \<lparr>coordinate_id = tower_id t, lat = tower_lat t, lon = tower_lon t\<rparr>) towers"

text \<open>
  The collaborators of the script whose code is not among the sources are
  parameters of the embedding: the two table loaders, the distance engine
  (construction of the model and \<open>run_chunks\<close> in one call) and the two
  operations of the single-lookup cache. Each may raise.
\<close>

record env =
  CellTowerTable_from_csv :: "(string \<rightharpoonup> string) \<Rightarrow> string \<Rightarrow> error + cell_tower list"
  GigaSchoolTable_from_csv :: "(string \<rightharpoonup> string) \<Rightarrow> string \<Rightarrow> error + school list"
  VectorizedDistanceModel_run_chunks ::
    "model \<Rightarrow> coordinate list \<times> coordinate list \<Rightarrow> int \<Rightarrow> error + distances"
  SingleLookupDistanceCache_from_distances :: "distances \<Rightarrow> error + single_cache"
  SingleLookupDistanceCache_to_json :: "single_cache \<Rightarrow> error + string"

subsection \<open>The command line\<close>

text \<open>
  What \<open>argparse\<close> is given, after its own conversion of each value
  (\<open>type=int\<close>, \<open>type=float\<close>): every option is either absent or present
  with a value; the flag \<open>--include-connected\<close> is present or not.
\<close>

record cli =
  opt_workspace_directory :: "string option"
  opt_include_connected :: bool
  opt_n_chunks :: "int option"
  opt_n_nearest_neighbors :: "int option"
  opt_maximum_distance_meters :: "pyfloat option"
  opt_file_suffix :: "string option"

record args =
  workspace_directory :: string
  include_connected :: bool
  n_chunks :: int
  n_nearest_neighbors :: int
  maximum_distance_meters :: pyfloat
  file_suffix :: string

definition parse_args :: "cli \<Rightarrow> error + args" where
  "parse_args cl =
     (case opt_workspace_directory cl of
        None \<Rightarrow> Inl (SystemExit 2)
      | Some d \<Rightarrow>
          Inr \<lparr>workspace_directory = d,
               include_connected = opt_include_connected cl,
               n_chunks = (case opt_n_chunks cl of None \<Rightarrow> 1000 | Some n \<Rightarrow> n),
               n_nearest_neighbors =
                 (case opt_n_nearest_neighbors cl of None \<Rightarrow> 20 | Some n \<Rightarrow> n),
               maximum_distance_meters =
                 (case opt_maximum_distance_meters cl of None \<Rightarrow> PosInf | Some d \<Rightarrow> d),
               file_suffix =
                 (case opt_file_suffix cl of None \<Rightarrow> ''_cache'' | Some s \<Rightarrow> s)\<rparr>)"

subsection \<open>\<open>main\<close>\<close>

text \<open>Lines 80 to 85: the schools that are queried.\<close>

definition select_schools :: "args \<Rightarrow> school list \<Rightarrow> world \<Rightarrow> school list \<times> world" where
  "select_schools a school_coords w =
     (if \<not> include_connected a
      then ([s \<leftarrow> school_coords. \<not> connected s],
            LOGGER_info ''Removing schools that are already connected from school set'' w)
      else (school_coords, w))"

text \<open>Lines 87 to 91: the model that is constructed.\<close>

definition distance_model :: "args \<Rightarrow> model" where
  "distance_model a =
     \<lparr>progress_bar = True,
      model_n_nearest_neighbors = n_nearest_neighbors a,
      model_maximum_distance = maximum_distance_meters a\<rparr>"

text \<open>Lines 96 to 99: the cache is built from the distances and written.\<close>

definition write_cache :: "env \<Rightarrow> args \<Rightarrow> distances \<Rightarrow> world \<Rightarrow> (error + unit) \<times> world" where
  "write_cache env a dists_cellular w =
     (case SingleLookupDistanceCache_from_distances env dists_cellular of
        Inl e \<Rightarrow> (Inl e, w)
      | Inr cellular_cache \<Rightarrow>
          (case SingleLookupDistanceCache_to_json env cellular_cache of
             Inl e \<Rightarrow> (Inl e, w)
           | Inr text \<Rightarrow>
               (Inr (),
                write_file
                  (path_join (workspace_directory a) (''cellular'' @ file_suffix a @ ''.json''))
                  text w)))"

text \<open>Lines 92 to 99: the engine runs on the two coordinate collections, then
  the cache is built and written.\<close>

definition build_and_write ::
  "env \<Rightarrow> args \<Rightarrow> coordinate list \<times> coordinate list \<Rightarrow> world \<Rightarrow> (error + unit) \<times> world" where
  "build_and_write env a data w =
     (case VectorizedDistanceModel_run_chunks env (distance_model a) data (n_chunks a) of
        Inl e \<Rightarrow> (Inl e, w)
      | Inr dists_cellular \<Rightarrow> write_cache env a dists_cellular w)"

definition main :: "env \<Rightarrow> cli \<Rightarrow> world \<Rightarrow> (error + unit) \<times> world" where
  "main env cl w =
     (case parse_args cl of
        Inl e \<Rightarrow> (Inl e, w)
      | Inr a \<Rightarrow>
          if \<not> is_file w (path_join (workspace_directory a) ''cellular.csv'') then
            (Inr (),
             open_append_close (path_join (workspace_directory a) ''cellular.csv'')
               (LOGGER_warning
                  (''Cell tower file not found in '' @ workspace_directory a
                     @ '', creating empty file.'') w))
          else
            (case CellTowerTable_from_csv env (files w)
                    (path_join (workspace_directory a) ''cellular.csv'') of
               Inl e \<Rightarrow> (Inl e, w)
             | Inr cellular_coordinates \<Rightarrow>
                 (case GigaSchoolTable_from_csv env (files w)
                         (path_join (workspace_directory a) ''schools.csv'') of
                    Inl e \<Rightarrow> (Inl e, w)
                  | Inr school_coords \<Rightarrow>
                      (case select_schools a school_coords w of
                         (queried, w') \<Rightarrow>
                           build_and_write env a
                             (to_coordinates queried,
                              tower_to_coordinates cellular_coordinates) w'))))"

section \<open>The school fetch script\<close>

subsection \<open>Data frames\<close>

text \<open>The value of a cell of a pandas frame, as Python sees it.\<close>

datatype pyval = PNone | PNaN | PBool bool | PInt int | PFloat real | PStr string

text \<open>
  A frame is its columns in order, each a name with its values by position,
  and its index: the column moved there by \<open>set_index\<close>, or none for the
  default range index.
\<close>

record frame =
  index :: "(string \<times> pyval list) option"
  cols :: "(string \<times> pyval list) list"

text \<open>\<open>d[k] = v\<close> on a dictionary or a frame: the entry of an existing key is
  replaced where it is, a new key goes to the end.\<close>

fun assign :: "string \<Rightarrow> 'v \<Rightarrow> (string \<times> 'v) list \<Rightarrow> (string \<times> 'v) list" where
  "assign k v [] = [(k, v)]"
| "assign k v ((k', v') # kvs) =
     (if k' = k then (k, v) # kvs else (k', v') # assign k v kvs)"

definition frame_keys :: "frame \<Rightarrow> string list" where
  "frame_keys fr = map fst (cols fr)"

definition n_rows :: "frame \<Rightarrow> nat" where
  "n_rows fr =
     (case index fr of
        Some (_, vs) \<Rightarrow> length vs
      | None \<Rightarrow> (case cols fr of [] \<Rightarrow> 0 | (_, vs) # _ \<Rightarrow> length vs))"

definition index_labels :: "frame \<Rightarrow> pyval list" where
  "index_labels fr =
     (case index fr of
        Some (_, vs) \<Rightarrow> vs
      | None \<Rightarrow> map (\<lambda>i. PInt (int i)) [0..<n_rows fr])"

text \<open>\<open>pd.DataFrame(columns=names)\<close>: the named columns and no row.\<close>

definition DataFrame_columns :: "string list \<Rightarrow> frame" where
  "DataFrame_columns names = \<lparr>index = None, cols = map (\<lambda>c. (c, [])) names\<rparr>"

text \<open>\<open>fr[names]\<close>: the named columns in the order asked for.\<close>

fun get_columns ::
  "(string \<times> pyval list) list \<Rightarrow> string list \<Rightarrow> error + (string \<times> pyval list) list" where
  "get_columns cs [] = Inr []"
| "get_columns cs (k # ks) =
     (case map_of cs k of
        None \<Rightarrow> Inl (KeyError k)
      | Some vs \<Rightarrow>
          (case get_columns cs ks of
             Inl e \<Rightarrow> Inl e
           | Inr r \<Rightarrow> Inr ((k, vs) # r)))"

definition select_columns :: "string list \<Rightarrow> frame \<Rightarrow> error + frame" where
  "select_columns names fr =
     (case get_columns (cols fr) names of
        Inl e \<Rightarrow> Inl e
      | Inr cs \<Rightarrow> Inr (fr\<lparr>cols := cs\<rparr>))"

text \<open>\<open>fr.rename(columns=m)\<close>: names that \<open>m\<close> does not mention stay.\<close>

definition rename_columns :: "(string \<times> string) list \<Rightarrow> frame \<Rightarrow> frame" where
  "rename_columns m fr =
     fr\<lparr>cols := map (\<lambda>(c, vs). (case map_of m c of None \<Rightarrow> c | Some c' \<Rightarrow> c', vs)) (cols fr)\<rparr>"

definition set_index :: "string \<Rightarrow> frame \<Rightarrow> error + frame" where
  "set_index k fr =
     (case map_of (cols fr) k of
        None \<Rightarrow> Inl (KeyError k)
      | Some vs \<Rightarrow> Inr \<lparr>index = Some (k, vs), cols = [c \<leftarrow> cols fr. fst c \<noteq> k]\<rparr>)"

definition reset_index :: "frame \<Rightarrow> error + frame" where
  "reset_index fr =
     (case index fr of
        None \<Rightarrow> Inr \<lparr>index = None, cols = (''index'', index_labels fr) # cols fr\<rparr>
      | Some (k, vs) \<Rightarrow>
          if k \<in> set (frame_keys fr)
          then Inl (ValueError (''cannot insert '' @ k @ '', already exists''))
          else Inr \<lparr>index = None, cols = (k, vs) # cols fr\<rparr>)"

text \<open>
  \<open>self.update(other)\<close> of pandas 1 and 2: \<open>other\<close> is reindexed to the
  labels of \<open>self\<close>, which may raise, and in every column the two frames
  share, the values of \<open>other\<close> that are not missing replace those of
  \<open>self\<close>; the columns of \<open>self\<close> that \<open>other\<close> does not have stay as they
  are. How pandas matches labels and what it makes of the values and types
  of a shared column is not written out here: when the reindexing raises
  (\<open>reindex_raises\<close>, by the labels of \<open>other\<close> and of \<open>self\<close>) and the values
  of a shared column after the update (\<open>update_values\<close>, by the labels and
  values of \<open>self\<close> and of \<open>other\<close>) are parameters. An index without labels
  has no label twice, and reindexing it raises nothing.
\<close>

definition frame_update ::
  "(pyval list \<Rightarrow> pyval list \<Rightarrow> bool)
     \<Rightarrow> (pyval list \<Rightarrow> pyval list \<Rightarrow> pyval list \<Rightarrow> pyval list \<Rightarrow> pyval list)
     \<Rightarrow> frame \<Rightarrow> frame \<Rightarrow> error + frame" where
  "frame_update reindex_raises update_values self other =
     (if index_labels other \<noteq> [] \<and> reindex_raises (index_labels other) (index_labels self)
      then Inl (ValueError ''cannot reindex on an axis with duplicate labels'')
      else Inr (self\<lparr>cols :=
             map (\<lambda>(c, this).
                    case map_of (cols other) c of
                      None \<Rightarrow> (c, this)
                    | Some that \<Rightarrow>
                        (c, update_values (index_labels self) this (index_labels other) that))
               (cols self)\<rparr>))"

text \<open>\<open>fr[k].apply(f)\<close>: the values of \<open>f\<close> down the column, or the first
  exception of \<open>f\<close>.\<close>

fun apply_values :: "(pyval \<Rightarrow> error + pyval) \<Rightarrow> pyval list \<Rightarrow> error + pyval list" where
  "apply_values f [] = Inr []"
| "apply_values f (x # xs) =
     (case f x of
        Inl e \<Rightarrow> Inl e
      | Inr y \<Rightarrow> (case apply_values f xs of Inl e \<Rightarrow> Inl e | Inr ys \<Rightarrow> Inr (y # ys)))"

definition apply_column :: "string \<Rightarrow> (pyval \<Rightarrow> error + pyval) \<Rightarrow> frame \<Rightarrow> error + pyval list" where
  "apply_column k f fr =
     (case map_of (cols fr) k of
        None \<Rightarrow> Inl (KeyError k)
      | Some vs \<Rightarrow> apply_values f vs)"

definition set_column :: "string \<Rightarrow> pyval list \<Rightarrow> frame \<Rightarrow> frame" where
  "set_column k vs fr = fr\<lparr>cols := assign k vs (cols fr)\<rparr>"

text \<open>\<open>int(x)\<close>; what it makes of a string is a parameter.\<close>

definition py_int :: "(string \<Rightarrow> int option) \<Rightarrow> pyval \<Rightarrow> error + int" where
  "py_int int_of_str x =
     (case x of
        PNone \<Rightarrow> Inl (TypeError ''int() argument must be a string or a number'')
      | PNaN \<Rightarrow> Inl (ValueError ''cannot convert float NaN to integer'')
      | PBool b \<Rightarrow> Inr (if b then 1 else 0)
      | PInt i \<Rightarrow> Inr i
      | PFloat r \<Rightarrow> Inr (if 0 \<le> r then \<lfloor>r\<rfloor> else \<lceil>r\<rceil>)
      | PStr s \<Rightarrow>
          (case int_of_str s of
             None \<Rightarrow> Inl (ValueError ''invalid literal for int()'')
           | Some i \<Rightarrow> Inr i))"

text \<open>\<open>str.title()\<close> on ASCII text.\<close>

definition is_upper :: "char \<Rightarrow> bool" where
  "is_upper c = (65 \<le> (of_char c :: nat) \<and> (of_char c :: nat) \<le> 90)"

definition is_lower :: "char \<Rightarrow> bool" where
  "is_lower c = (97 \<le> (of_char c :: nat) \<and> (of_char c :: nat) \<le> 122)"

text \<open>The two cases of an ASCII letter differ in the bit of value 32.\<close>

definition to_upper :: "char \<Rightarrow> char" where
  "to_upper c = (case c of Char b0 b1 b2 b3 b4 b5 b6 b7 \<Rightarrow> Char b0 b1 b2 b3 b4 False b6 b7)"

definition to_lower :: "char \<Rightarrow> char" where
  "to_lower c = (case c of Char b0 b1 b2 b3 b4 b5 b6 b7 \<Rightarrow> Char b0 b1 b2 b3 b4 True b6 b7)"

fun title_from :: "bool \<Rightarrow> string \<Rightarrow> string" where
  "title_from prev [] = []"
| "title_from prev (c # cs) =
     (if is_lower c then (if prev then c else to_upper c) # title_from True cs
      else if is_upper c then (if prev then to_lower c else c) # title_from True cs
      else c # title_from False cs)"

definition title :: "string \<Rightarrow> string" where
  "title s = title_from False s"

subsection \<open>Collaborators and command line\<close>

text \<open>
  The parts of the script that are not among the sources, as parameters: the
  registered countries, the API client (what \<open>get_schools\<close> returns or
  raises, by token and country), the parser of \<open>pd.read_csv\<close> on the text of
  a file, \<open>GigaSchoolTable(schools=...).to_data_frame()\<close>, the two
  parameters of \<open>frame_update\<close>, \<open>int\<close> on a string, and the operating
  system: the exception that opening a path raises when no text can be read
  from it (\<open>FileNotFoundError\<close> where nothing is there,
  \<open>IsADirectoryError\<close> for a directory, and so on), \<open>os.path.exists(path)\<close>,
  and the two calls that change the file system, \<open>os.makedirs(path)\<close> and
  \<open>frame.to_csv(path, index=0)\<close>, each with its outcome (an exception or a
  normal return) and the world it leaves.
\<close>

record 'raw fetch_env =
  REGISTERED_COUNTRIES :: "string list"
  GigaAPIClient_get_schools :: "string \<Rightarrow> string \<Rightarrow> error + 'raw list"
  pd_read_csv :: "string \<Rightarrow> error + frame"
  GigaSchoolTable_to_data_frame :: "'raw list \<Rightarrow> error + frame"
  pd_reindex_raises :: "pyval list \<Rightarrow> pyval list \<Rightarrow> bool"
  pd_update_values :: "pyval list \<Rightarrow> pyval list \<Rightarrow> pyval list \<Rightarrow> pyval list \<Rightarrow> pyval list"
  int_of_str :: "string \<Rightarrow> int option"
  os_open_error :: "world \<Rightarrow> string \<Rightarrow> error"
  os_path_exists :: "world \<Rightarrow> string \<Rightarrow> bool"
  os_makedirs :: "string \<Rightarrow> world \<Rightarrow> (error + unit) \<times> world"
  DataFrame_to_csv :: "frame \<Rightarrow> string \<Rightarrow> world \<Rightarrow> (error + unit) \<times> world"

record fetch_cli =
  opt_fetch_workspace_directory :: "string option"
  opt_api_token :: "string option"
  opt_country :: "string option"

record fetch_args =
  fetch_workspace_directory :: string
  api_token :: string
  country :: string

definition fetch_parse_args :: "string list \<Rightarrow> fetch_cli \<Rightarrow> error + fetch_args" where
  "fetch_parse_args choices cl =
     (case (opt_fetch_workspace_directory cl, opt_api_token cl, opt_country cl) of
        (Some d, Some t, Some c) \<Rightarrow>
          if c \<in> set choices
          then Inr \<lparr>fetch_workspace_directory = d, api_token = t, country = c\<rparr>
          else Inl (SystemExit 2)
      | _ \<Rightarrow> Inl (SystemExit 2))"

subsection \<open>\<open>main\<close> of the fetch script\<close>

definition required_columns :: "string list" where
  "required_columns =
     [''giga_id_school'', ''electricity'', ''fiber'', ''num_students'', ''coverage_type'']"

text \<open>\<open>pd.read_csv(path)\<close>: the text read from the path is parsed; where no
  text can be read, opening the path raises.\<close>

definition read_csv :: "'raw fetch_env \<Rightarrow> world \<Rightarrow> string \<Rightarrow> error + frame" where
  "read_csv env w p =
     (case files w p of
        Some text \<Rightarrow> pd_read_csv env text
      | None \<Rightarrow> Inl (os_open_error env w p))"

text \<open>Lines 146 to 169: the body of the \<open>try\<close>.\<close>

definition read_supplemental :: "'raw fetch_env \<Rightarrow> world \<Rightarrow> string \<Rightarrow> error + frame" where
  "read_supplemental env w d =
     (case read_csv env w (path_join d ''schools_supplemental.csv'') of
        Inl e \<Rightarrow> Inl e
      | Inr supp \<Rightarrow>
          if \<not> list_all (\<lambda>k. k \<in> set (frame_keys supp)) required_columns
          then Inl (AssertionError ''Supplemental data is missing required columns'')
          else
            (case select_columns required_columns supp of
               Inl e \<Rightarrow> Inl e
             | Inr selected \<Rightarrow>
                 Inr (rename_columns
                        [(''giga_id_school'', ''giga_id''),
                         (''electricity'', ''has_electricity''),
                         (''fiber'', ''has_fiber''),
                         (''coverage_type'', ''cell_coverage_type'')] selected)))"

text \<open>Lines 145 to 171: the \<open>try\<close> with its handler, which takes
  \<open>FileNotFoundError\<close> and nothing else.\<close>

definition load_supplemental :: "'raw fetch_env \<Rightarrow> world \<Rightarrow> string \<Rightarrow> error + frame" where
  "load_supplemental env w d =
     (case read_supplemental env w d of
        Inl (FileNotFoundError _) \<Rightarrow> Inr (DataFrame_columns [''giga_id''])
      | r \<Rightarrow> r)"

definition num_students_lambda :: "(string \<Rightarrow> int option) \<Rightarrow> pyval \<Rightarrow> error + pyval" where
  "num_students_lambda ios x =
     (case py_int ios (if x = PNone then PInt 0 else x) of
        Inl e \<Rightarrow> Inl e
      | Inr i \<Rightarrow> Inr (PInt i))"

definition connected_lambda :: "pyval \<Rightarrow> error + pyval" where
  "connected_lambda x =
     Inr (if x = PStr ''Good'' \<or> x = PStr ''Moderate'' then PBool True else PBool False)"

text \<open>Lines 181 to 199: the frame of the schools is updated from the
  supplemental table and brought to the base schema.\<close>

definition transform :: "'raw fetch_env \<Rightarrow> frame \<Rightarrow> frame \<Rightarrow> error + frame" where
  "transform env frame0 supp0 =
     (case set_index ''giga_id'' supp0 of
        Inl e \<Rightarrow> Inl e
      | Inr supp \<Rightarrow>
     (case set_index ''giga_id'' frame0 of
        Inl e \<Rightarrow> Inl e
      | Inr frame1 \<Rightarrow>
     (case frame_update (pd_reindex_raises env) (pd_update_values env) frame1 supp of
        Inl e \<Rightarrow> Inl e
      | Inr frame2 \<Rightarrow>
     (case reset_index frame2 of
        Inl e \<Rightarrow> Inl e
      | Inr frame3 \<Rightarrow>
     (case apply_column ''num_students'' (num_students_lambda (int_of_str env)) frame3 of
        Inl e \<Rightarrow> Inl e
      | Inr students \<Rightarrow>
     (case apply_column ''connectivity_status'' connected_lambda
             (set_column ''num_students'' students frame3) of
        Inl e \<Rightarrow> Inl e
      | Inr flags \<Rightarrow>
          Inr (rename_columns
                 [(''giga_id'', ''giga_id_school''),
                  (''school_zone'', ''environment''),
                  (''connectivity_status'', ''connectivity_speed_status'')]
                 (set_column ''connected'' flags
                    (set_column ''num_students'' students frame3)))))))))"

text \<open>Lines 202 to 204: the directory of the workspace is made unless the
  path exists, and the table is written into it. Either call may raise.\<close>

definition write_schools ::
  "'raw fetch_env \<Rightarrow> string \<Rightarrow> frame \<Rightarrow> world \<Rightarrow> (error + unit) \<times> world" where
  "write_schools env d fr w =
     (if \<not> os_path_exists env w d then
        (case os_makedirs env d w of
           (Inl e, w1) \<Rightarrow> (Inl e, w1)
         | (Inr u, w1) \<Rightarrow> DataFrame_to_csv env fr (path_join d ''schools.csv'') w1)
      else DataFrame_to_csv env fr (path_join d ''schools.csv'') w)"

definition fetch_main :: "'raw fetch_env \<Rightarrow> fetch_cli \<Rightarrow> world \<Rightarrow> (error + unit) \<times> world" where
  "fetch_main env cl w0 =
     (case fetch_parse_args (REGISTERED_COUNTRIES env) cl of
        Inl e \<Rightarrow> (Inl e, w0)
      | Inr a \<Rightarrow>
          (let w = LOGGER_info
                     (''Fetching up to date schools for country: '' @ title (country a)) w0
           in
           case GigaAPIClient_get_schools env (api_token a) (country a) of
             Inl e \<Rightarrow> (Inl e, w)
           | Inr raw_schools \<Rightarrow>
               (case load_supplemental env w (fetch_workspace_directory a) of
                  Inl e \<Rightarrow> (Inl e, w)
                | Inr supp \<Rightarrow>
                    if \<not> length raw_schools > 0 then
                      (Inl (AssertionError
                         ''No schools found for country, perhaps there is an issue with the project connect API''),
                       w)
                    else
                      (case GigaSchoolTable_to_data_frame env raw_schools of
                         Inl e \<Rightarrow> (Inl e, w)
                       | Inr frame0 \<Rightarrow>
                           (case transform env frame0 supp of
                              Inl e \<Rightarrow> (Inl e, w)
                            | Inr out \<Rightarrow>
                                write_schools env (fetch_workspace_directory a) out w)))))"

section \<open>The core behind the cache builder, from the specification\<close>

subsection \<open>The distance engine\<close>

text \<open>
  Modelled from the spec: \<open>VectorizedDistanceModel\<close> with its \<open>run_chunks\<close>
  is not among the sources. Sections 4.1 and 5: the configuration is rejected
  unless there is at least one neighbour to keep, the maximum distance is not
  negative and there is at least one chunk; the queries are split into
  \<open>n_chunks\<close> contiguous partitions, the last taking the remainder; for each
  query the distance to every reference is computed with one fixed formula
  (the parameter \<open>geodesic\<close>, which the specification leaves open), those above
  the maximum are dropped, and the nearest are kept in ascending order of
  distance, the reference identifier breaking ties; the mappings of the
  chunks are merged into one; a progress channel may observe the completion
  of each chunk.
\<close>

definition within_bound :: "real \<Rightarrow> pyfloat \<Rightarrow> bool" where
  "within_bound d m = (case m of Finite x \<Rightarrow> d \<le> x | PosInf \<Rightarrow> True | NegInf \<Rightarrow> False | NaN \<Rightarrow> False)"

definition nonnegative :: "pyfloat \<Rightarrow> bool" where
  "nonnegative m = within_bound 0 m"

definition neighbor_list ::
  "(coordinate \<Rightarrow> coordinate \<Rightarrow> real) \<Rightarrow> model \<Rightarrow> coordinate list \<Rightarrow> coordinate
     \<Rightarrow> neighbor_match list" where
  "neighbor_list geodesic m references q =
     take (nat (model_n_nearest_neighbors m))
       (sort_key (\<lambda>x. (distance_meters x, target_id x))
          [x \<leftarrow> map (\<lambda>r. \<lparr>source_id = coordinate_id q, target_id = coordinate_id r,
                          distance_meters = geodesic q r\<rparr>) references.
             within_bound (distance_meters x) (model_maximum_distance m)])"

definition run_chunk ::
  "(coordinate \<Rightarrow> coordinate \<Rightarrow> real) \<Rightarrow> model \<Rightarrow> coordinate list \<Rightarrow> coordinate list
     \<Rightarrow> distances" where
  "run_chunk geodesic m references chunk =
     fold (\<lambda>q. assign (coordinate_id q) (neighbor_list geodesic m references q)) chunk []"

text \<open>The merge of two mappings, as \<open>dict.update\<close>.\<close>

definition merge :: "distances \<Rightarrow> distances \<Rightarrow> distances" where
  "merge acc d = fold (\<lambda>(k, v). assign k v) d acc"

text \<open>\<open>split_chunks k sz xs\<close>: \<open>k\<close> contiguous partitions of \<open>xs\<close>, all but the
  last of size \<open>sz\<close>.\<close>

fun split_chunks :: "nat \<Rightarrow> nat \<Rightarrow> 'a list \<Rightarrow> 'a list list" where
  "split_chunks 0 sz xs = []"
| "split_chunks (Suc 0) sz xs = [xs]"
| "split_chunks (Suc (Suc k)) sz xs = take sz xs # split_chunks (Suc k) sz (drop sz xs)"

text \<open>The chunks in turn; the observer, when there is one, is told the number
  of each chunk as it completes and keeps a state of its own.\<close>

fun run_all ::
  "(coordinate list \<Rightarrow> distances) \<Rightarrow> (nat \<Rightarrow> 'o \<Rightarrow> 'o) option \<Rightarrow> coordinate list list \<Rightarrow> nat
     \<Rightarrow> distances \<times> 'o \<Rightarrow> distances \<times> 'o" where
  "run_all f observer [] i (acc, s) = (acc, s)"
| "run_all f observer (chunk # chunks) i (acc, s) =
     run_all f observer chunks (Suc i)
       (merge acc (f chunk), (case observer of None \<Rightarrow> s | Some notify \<Rightarrow> notify i s))"

definition run_chunks ::
  "(coordinate \<Rightarrow> coordinate \<Rightarrow> real) \<Rightarrow> (nat \<Rightarrow> 'o \<Rightarrow> 'o) \<Rightarrow> model
     \<Rightarrow> coordinate list \<times> coordinate list \<Rightarrow> int \<Rightarrow> 'o \<Rightarrow> (error + distances) \<times> 'o" where
  "run_chunks geodesic notify m data n s =
     (if model_n_nearest_neighbors m < 1 then
        (Inl (ConfigurationError ''n_nearest_neighbors must be at least 1''), s)
      else if \<not> nonnegative (model_maximum_distance m) then
        (Inl (ConfigurationError ''maximum_distance must not be negative''), s)
      else if n < 1 then
        (Inl (ConfigurationError ''n_chunks must be at least 1''), s)
      else
        (case data of
           (queries, references) \<Rightarrow>
             (case run_all (run_chunk geodesic m references)
                     (if progress_bar m then Some notify else None)
                     (split_chunks (nat n) (length queries div nat n) queries) 0 ([], s) of
                (d, s') \<Rightarrow> (Inr d, s'))))"

subsection \<open>The single-lookup cache\<close>

text \<open>
  Modelled from the spec: \<open>SingleLookupDistanceCache\<close> is not among the
  sources. Sections 4.2 and 6: the cache keeps the first (nearest) entry of
  each source and omits the sources whose list is empty; the file holds, in
  a structured text format with sorted keys, the mapping from source
  identifier to one pair of \<open>target_id\<close> and \<open>distance_meters\<close>. The JSON
  document is built here; its rendering as text (\<open>json.dumps\<close>) is a parameter.
\<close>

datatype json = JNumber real | JString string | JObject "(string \<times> json) list"

definition build_single :: "distances \<Rightarrow> single_cache" where
  "build_single matches =
     List.map_filter (\<lambda>(k, ms). case ms of [] \<Rightarrow> None | m # _ \<Rightarrow> Some (k, m)) matches"

definition match_json :: "neighbor_match \<Rightarrow> json" where
  "match_json m =
     JObject [(''target_id'', JString (target_id m)),
              (''distance_meters'', JNumber (distance_meters m))]"

definition cache_json :: "single_cache \<Rightarrow> json" where
  "cache_json c = JObject (map (\<lambda>(k, m). (k, match_json m)) (sort_key fst c))"

text \<open>The cache builder with the cache of the specification in the place of
  the two cache operations.\<close>

definition with_single_cache :: "(json \<Rightarrow> string) \<Rightarrow> env \<Rightarrow> env" where
  "with_single_cache dumps env =
     env\<lparr>SingleLookupDistanceCache_from_distances := (\<lambda>d. Inr (build_single d)),
         SingleLookupDistanceCache_to_json := (\<lambda>c. Inr (dumps (cache_json c)))\<rparr>"

section \<open>Example inputs\<close>

text \<open>A workspace \<open>ws\<close> with one connected and one unconnected school and one
  tower; collaborators that answer with fixed tables and distances.\<close>

definition example_env :: env where
  "example_env =
     \<lparr>CellTowerTable_from_csv =
        (\<lambda>fs p. Inr [\<lparr>tower_id = ''T1'', tower_lat = 0, tower_lon = 1\<rparr>]),
      GigaSchoolTable_from_csv =
        (\<lambda>fs p. Inr
           [\<lparr>giga_id = ''A'', school_lat = 0, school_lon = 0, connected = True\<rparr>,
            \<lparr>giga_id = ''B'', school_lat = 0, school_lon = 1, connected = False\<rparr>]),
      VectorizedDistanceModel_run_chunks =
        (\<lambda>m d n. Inr
           [(''B'', [\<lparr>source_id = ''B'', target_id = ''T1'', distance_meters = 0\<rparr>])]),
      SingleLookupDistanceCache_from_distances = (\<lambda>d. Inr []),
      SingleLookupDistanceCache_to_json = (\<lambda>c. Inr ''{}'')\<rparr>"

definition example_dumps :: "json \<Rightarrow> string" where
  "example_dumps j =
     (case j of JObject entries \<Rightarrow> concat (map (\<lambda>e. fst e @ '';'') entries) | _ \<Rightarrow> [])"

definition example_cli :: cli where
  "example_cli =
     \<lparr>opt_workspace_directory = Some ''ws'', opt_include_connected = False,
      opt_n_chunks = None, opt_n_nearest_neighbors = None,
      opt_maximum_distance_meters = None, opt_file_suffix = None\<rparr>"

definition example_args :: args where
  "example_args =
     \<lparr>workspace_directory = ''ws'', include_connected = False, n_chunks = 1000,
      n_nearest_neighbors = 20, maximum_distance_meters = PosInf, file_suffix = ''_cache''\<rparr>"

definition example_world :: world where
  "example_world =
     \<lparr>files = [''ws/cellular.csv'' \<mapsto> ''c'', ''ws/schools.csv'' \<mapsto> ''s''],
      dirs = {''ws''}, logger = []\<rparr>"

definition empty_world :: world where
  "empty_world = \<lparr>files = Map.empty, dirs = {''ws''}, logger = []\<rparr>"

text \<open>The scenario of section 8 of the specification, with a planar stand-in
  for the geodesic formula and an observer that counts the chunks.\<close>

definition example_geodesic :: "coordinate \<Rightarrow> coordinate \<Rightarrow> real" where
  "example_geodesic q r = 111000 * (\<bar>lat q - lat r\<bar> + \<bar>lon q - lon r\<bar>)"

definition example_queries :: "coordinate list" where
  "example_queries =
     [\<lparr>coordinate_id = ''A'', lat = 0, lon = 0\<rparr>, \<lparr>coordinate_id = ''B'', lat = 0, lon = 1\<rparr>]"

definition example_references :: "coordinate list" where
  "example_references =
     [\<lparr>coordinate_id = ''T1'', lat = 0, lon = 1 / 10\<rparr>,
      \<lparr>coordinate_id = ''T2'', lat = 5, lon = 5\<rparr>]"

definition example_model :: model where
  "example_model =
     \<lparr>progress_bar = True, model_n_nearest_neighbors = 1,
      model_maximum_distance = Finite 50000\<rparr>"

definition count_chunks :: "nat \<Rightarrow> nat \<Rightarrow> nat" where
  "count_chunks i s = Suc s"

text \<open>An API that knows two schools in one country and none in the other, a
  supplemental table with two columns only, a file system in which the
  empty path names nothing and any other directory can be made, and a
  writer that puts the header of the frame into the file.\<close>

definition example_header :: "frame \<Rightarrow> string" where
  "example_header fr = concat (map (\<lambda>c. fst c @ '','') (cols fr))"

definition example_fetch_env :: "string fetch_env" where
  "example_fetch_env =
     \<lparr>REGISTERED_COUNTRIES = [''rwanda'', ''brazil''],
      GigaAPIClient_get_schools =
        (\<lambda>token c. if c = ''rwanda'' then Inr [''s1'', ''s2''] else Inr []),
      pd_read_csv =
        (\<lambda>text. Inr \<lparr>index = None,
           cols = [(''giga_id_school'', [PStr ''s1'']), (''electricity'', [PBool True])]\<rparr>),
      GigaSchoolTable_to_data_frame =
        (\<lambda>raw. Inr \<lparr>index = None,
           cols = [(''giga_id'', map PStr raw),
                   (''num_students'', map (\<lambda>r. if r = ''s1'' then PInt 120 else PNone) raw),
                   (''connectivity_status'',
                      map (\<lambda>r. if r = ''s1'' then PStr ''Good'' else PStr ''unknown'') raw)]\<rparr>),
      pd_reindex_raises = (\<lambda>other_labels self_labels.
         other_labels \<noteq> self_labels \<and> \<not> distinct other_labels),
      pd_update_values = (\<lambda>self_labels this other_labels that.
         map (\<lambda>(l, x). case map_of (zip other_labels that) l of
                          None \<Rightarrow> x
                        | Some y \<Rightarrow> if y = PNone \<or> y = PNaN then x else y)
           (zip self_labels this)),
      int_of_str = (\<lambda>s. None),
      os_open_error = (\<lambda>w p. if p \<in> dirs w then IsADirectoryError p else FileNotFoundError p),
      os_path_exists = (\<lambda>w p. p \<noteq> [] \<and> (p \<in> dirs w \<or> p \<in> dom (files w))),
      os_makedirs = (\<lambda>p w. if p = [] then (Inl (FileNotFoundError p), w)
                            else (Inr (), w\<lparr>dirs := insert p (dirs w)\<rparr>)),
      DataFrame_to_csv = (\<lambda>fr p w. (Inr (), w\<lparr>files := (files w)(p \<mapsto> example_header fr)\<rparr>))\<rparr>"

definition example_fetch_cli :: "string \<Rightarrow> fetch_cli" where
  "example_fetch_cli c =
     \<lparr>opt_fetch_workspace_directory = Some ''ws'', opt_api_token = Some ''token'',
      opt_country = Some c\<rparr>"

definition example_fetch_args :: "string \<Rightarrow> fetch_args" where
  "example_fetch_args c =
     \<lparr>fetch_workspace_directory = ''ws'', api_token = ''token'', country = c\<rparr>"

definition bare_world :: world where
  "bare_world = \<lparr>files = Map.empty, dirs = {}, logger = []\<rparr>"

definition supplemental_world :: world where
  "supplemental_world =
     \<lparr>files = [''ws/schools_supplemental.csv'' \<mapsto> ''giga_id_school,electricity''],
      dirs = {''ws''}, logger = []\<rparr>"

section \<open>The cache builder: properties\<close>

text \<open>
  C1. Whenever \<open>cellular.csv\<close> is not a file of the workspace, the cache
  builder returns normally: nothing is raised, one warning is logged, and
  the only change to the store is that \<open>cellular.csv\<close> now exists and is
  empty. No collaborator is called and no cache file is written.
\<close>

theorem missing_cellular_table_warns_and_leaves_empty_file:
  assumes "parse_args cl = Inr a"
    and "\<not> is_file w (path_join (workspace_directory a) ''cellular.csv'')"
  shows "main env cl w =
    (Inr (),
     w\<lparr>files := (files w)(path_join (workspace_directory a) ''cellular.csv'' \<mapsto> ''''),
       logger := logger w @
         [(WARNING, ''Cell tower file not found in '' @ workspace_directory a
                      @ '', creating empty file.'')]\<rparr>)"
  using assms
  by (simp add: main_def open_append_close_def LOGGER_warning_def is_file_def)

theorem missing_cellular_table_witness:
  "parse_args example_cli = Inr example_args
   \<and> \<not> is_file empty_world (path_join (workspace_directory example_args) ''cellular.csv'')
   \<and> main example_env example_cli empty_world =
       (Inr (),
        \<lparr>files = [''ws/cellular.csv'' \<mapsto> ''''], dirs = {''ws''},
         logger = [(WARNING, ''Cell tower file not found in ws, creating empty file.'')]\<rparr>)"
  using missing_cellular_table_warns_and_leaves_empty_file
    [of example_cli example_args empty_world example_env]
  by (simp add: parse_args_def example_cli_def example_args_def empty_world_def is_file_def
        path_join_def)

text \<open>
  C3. Once the two tables are loaded, the engine is run on the coordinates
  of the queried schools. Without \<open>--include-connected\<close> the queried schools
  are the loaded ones with the connected ones filtered out: no connected
  school is queried and every unconnected one is. With the flag, the
  queried schools are the loaded ones.
\<close>

theorem connected_schools_leave_the_query_set:
  assumes "parse_args cl = Inr a"
    and "is_file w (path_join (workspace_directory a) ''cellular.csv'')"
    and "CellTowerTable_from_csv env (files w)
           (path_join (workspace_directory a) ''cellular.csv'') = Inr towers"
    and "GigaSchoolTable_from_csv env (files w)
           (path_join (workspace_directory a) ''schools.csv'') = Inr schools"
  shows "\<exists>queried w'.
           main env cl w =
             build_and_write env a (to_coordinates queried, tower_to_coordinates towers) w'
         \<and> (\<not> opt_include_connected cl \<longrightarrow>
               queried = [s \<leftarrow> schools. \<not> connected s]
             \<and> (\<forall>s \<in> set schools. connected s \<longrightarrow> s \<notin> set queried)
             \<and> (\<forall>s \<in> set schools. \<not> connected s \<longrightarrow> s \<in> set queried))
         \<and> (opt_include_connected cl \<longrightarrow> queried = schools)"
proof -
  from assms(1) have flag: "include_connected a = opt_include_connected cl"
    by (cases "opt_workspace_directory cl") (auto simp: parse_args_def)
  obtain queried w' where sel: "select_schools a schools w = (queried, w')"
    by (cases "select_schools a schools w")
  from sel flag have q: "queried = (if opt_include_connected cl then schools
                                    else [s \<leftarrow> schools. \<not> connected s])"
    by (auto simp: select_schools_def split: if_splits)
  from assms sel
  have "main env cl w =
          build_and_write env a (to_coordinates queried, tower_to_coordinates towers) w'"
    by (simp add: main_def)
  with q show ?thesis by auto
qed

theorem connected_schools_witness:
  "parse_args example_cli = Inr example_args
   \<and> is_file example_world (path_join (workspace_directory example_args) ''cellular.csv'')
   \<and> \<not> opt_include_connected example_cli
   \<and> (\<exists>queried w'.
        main example_env example_cli example_world =
          build_and_write example_env example_args
            (to_coordinates queried,
             tower_to_coordinates [\<lparr>tower_id = ''T1'', tower_lat = 0, tower_lon = 1\<rparr>]) w'
      \<and> queried = [\<lparr>giga_id = ''B'', school_lat = 0, school_lon = 1, connected = False\<rparr>])"
  using connected_schools_leave_the_query_set
    [of example_cli example_args example_world example_env
       "[\<lparr>tower_id = ''T1'', tower_lat = 0, tower_lon = 1\<rparr>]"
       "[\<lparr>giga_id = ''A'', school_lat = 0, school_lon = 0, connected = True\<rparr>,
         \<lparr>giga_id = ''B'', school_lat = 0, school_lon = 1, connected = False\<rparr>]"]
  by (simp add: parse_args_def example_cli_def example_args_def example_world_def
        example_env_def is_file_def path_join_def)

text \<open>
  C4. Given the workspace directory and no optional argument, the parsed
  arguments are the defaults, and the engine is constructed and run with
  them: 20 nearest neighbours, an infinite maximum distance and 1000 chunks,
  on the schools that are not connected.
\<close>

theorem defaults_reach_the_core:
  assumes "cl = \<lparr>opt_workspace_directory = Some d, opt_include_connected = False,
                  opt_n_chunks = None, opt_n_nearest_neighbors = None,
                  opt_maximum_distance_meters = None, opt_file_suffix = None\<rparr>"
    and "is_file w (path_join d ''cellular.csv'')"
    and "CellTowerTable_from_csv env (files w) (path_join d ''cellular.csv'') = Inr towers"
    and "GigaSchoolTable_from_csv env (files w) (path_join d ''schools.csv'') = Inr schools"
  shows "parse_args cl =
           Inr \<lparr>workspace_directory = d, include_connected = False, n_chunks = 1000,
                n_nearest_neighbors = 20, maximum_distance_meters = PosInf,
                file_suffix = ''_cache''\<rparr>
       \<and> main env cl w =
           (case VectorizedDistanceModel_run_chunks env
                   \<lparr>progress_bar = True, model_n_nearest_neighbors = 20,
                    model_maximum_distance = PosInf\<rparr>
                   (to_coordinates [s \<leftarrow> schools. \<not> connected s], tower_to_coordinates towers)
                   1000 of
              Inl e \<Rightarrow>
                (Inl e,
                 LOGGER_info ''Removing schools that are already connected from school set'' w)
            | Inr dists_cellular \<Rightarrow>
                write_cache env
                  \<lparr>workspace_directory = d, include_connected = False, n_chunks = 1000,
                   n_nearest_neighbors = 20, maximum_distance_meters = PosInf,
                   file_suffix = ''_cache''\<rparr>
                  dists_cellular
                  (LOGGER_info ''Removing schools that are already connected from school set'' w))"
  using assms
  by (simp add: parse_args_def main_def select_schools_def build_and_write_def
        distance_model_def)

theorem defaults_witness:
  "is_file example_world (path_join ''ws'' ''cellular.csv'')
   \<and> parse_args example_cli =
       Inr \<lparr>workspace_directory = ''ws'', include_connected = False, n_chunks = 1000,
            n_nearest_neighbors = 20, maximum_distance_meters = PosInf,
            file_suffix = ''_cache''\<rparr>
   \<and> main example_env example_cli example_world =
       (Inr (),
        \<lparr>files = [''ws/cellular.csv'' \<mapsto> ''c'', ''ws/schools.csv'' \<mapsto> ''s'',
                  ''ws/cellular_cache.json'' \<mapsto> ''{}''],
         dirs = {''ws''},
         logger = [(INFO, ''Removing schools that are already connected from school set'')]\<rparr>)"
  using defaults_reach_the_core
    [of example_cli "''ws''" example_world example_env
       "[\<lparr>tower_id = ''T1'', tower_lat = 0, tower_lon = 1\<rparr>]"
       "[\<lparr>giga_id = ''A'', school_lat = 0, school_lon = 0, connected = True\<rparr>,
         \<lparr>giga_id = ''B'', school_lat = 0, school_lon = 1, connected = False\<rparr>]"]
  by (simp add: example_cli_def example_world_def example_env_def
        is_file_def path_join_def write_cache_def write_file_def LOGGER_info_def)

section \<open>The school fetch script: properties\<close>

subsection \<open>Columns and assignments\<close>

lemma assign_hit: "(k, v) \<in> set (assign k v xs)"
  by (induction xs) auto

lemma assign_keeps: "(k', v') \<in> set xs \<Longrightarrow> k' \<noteq> k \<Longrightarrow> (k', v') \<in> set (assign k v xs)"
  by (induction xs) auto

lemma map_of_assign_other: "k' \<noteq> k \<Longrightarrow> map_of (assign k v xs) k' = map_of xs k'"
  by (induction xs) auto

lemma map_of_filter_other:
  "k' \<noteq> k \<Longrightarrow> map_of [c \<leftarrow> xs. fst c \<noteq> k] k' = map_of xs k'"
  by (induction xs) auto

lemma apply_values_connected:
  "apply_values connected_lambda vs =
     Inr (map (\<lambda>x. PBool (x = PStr ''Good'' \<or> x = PStr ''Moderate'')) vs)"
  by (induction vs) (simp_all add: connected_lambda_def)

lemma rename_columns_mem:
  "(c, vs) \<in> set (cols fr) \<Longrightarrow>
     ((case map_of m c of None \<Rightarrow> c | Some c' \<Rightarrow> c'), vs) \<in> set (cols (rename_columns m fr))"
  by (force simp: rename_columns_def)

lemma map_of_renamed_other:
  assumes "\<And>c. f c = k \<longleftrightarrow> c = k"
  shows "map_of (map (\<lambda>(c, vs). (f c, vs)) xs) k = map_of xs k"
proof (induction xs)
  case Nil
  show ?case by simp
next
  case (Cons e xs)
  obtain c vs where e: "e = (c, vs)" by (cases e)
  show ?case
  proof (cases "c = k")
    case True
    with assms have "f c = k" by simp
    with True e show ?thesis by simp
  next
    case False
    with assms have "f c \<noteq> k" by simp
    with False e Cons show ?thesis by simp
  qed
qed

lemma map_of_rename_connected:
  "map_of (cols (rename_columns
                   [(''giga_id'', ''giga_id_school''),
                    (''school_zone'', ''environment''),
                    (''connectivity_status'', ''connectivity_speed_status'')] fr)) ''connected''
     = map_of (cols fr) ''connected''"
proof -
  have "(case map_of [(''giga_id'', ''giga_id_school''),
                      (''school_zone'', ''environment''),
                      (''connectivity_status'', ''connectivity_speed_status'')] c of
           None \<Rightarrow> c | Some c' \<Rightarrow> c') = ''connected'' \<longleftrightarrow> c = ''connected''" for c
    by simp
  then show ?thesis
    unfolding rename_columns_def
    using map_of_renamed_other
      [of "\<lambda>c. case map_of [(''giga_id'', ''giga_id_school''),
                      (''school_zone'', ''environment''),
                      (''connectivity_status'', ''connectivity_speed_status'')] c of
           None \<Rightarrow> c | Some c' \<Rightarrow> c'" "''connected''" "cols fr"]
    by simp
qed

lemma map_of_assign_same: "map_of (assign k v xs) k = Some v"
  by (induction xs) auto

lemma get_columns_keys: "get_columns cs names = Inr r \<Longrightarrow> map fst r = names"
  by (induction names arbitrary: r) (auto split: option.splits sum.splits)

lemma map_of_updated_cols:
  "g k = None \<Longrightarrow>
     map_of (map (\<lambda>(c, this). case g c of None \<Rightarrow> (c, this) | Some that \<Rightarrow> (c, h c this that)) xs) k
       = map_of xs k"
  by (induction xs) (auto split: option.splits)

subsection \<open>The supplemental table and the update\<close>

lemma read_supplemental_keys:
  assumes "read_supplemental env w d = Inr supp"
  shows "frame_keys supp =
           [''giga_id'', ''has_electricity'', ''has_fiber'', ''num_students'',
            ''cell_coverage_type'']"
proof -
  from assms obtain table selected where
    sel: "select_columns required_columns table = Inr selected"
    and supp: "supp = rename_columns
                        [(''giga_id_school'', ''giga_id''),
                         (''electricity'', ''has_electricity''),
                         (''fiber'', ''has_fiber''),
                         (''coverage_type'', ''cell_coverage_type'')] selected"
    by (auto simp: read_supplemental_def split: sum.splits if_splits)
  from sel have "map fst (cols selected) = required_columns"
    by (auto simp: select_columns_def split: sum.splits dest: get_columns_keys)
  then obtain c1 c2 c3 c4 c5 where
    "cols selected = [(''giga_id_school'', c1), (''electricity'', c2), (''fiber'', c3),
                      (''num_students'', c4), (''coverage_type'', c5)]"
    by (auto simp: required_columns_def map_eq_Cons_conv)
  with supp show ?thesis by (simp add: frame_keys_def rename_columns_def)
qed

lemma load_supplemental_keys:
  assumes "load_supplemental env w d = Inr supp"
  shows "''connectivity_status'' \<notin> set (frame_keys supp)"
proof (cases "read_supplemental env w d")
  case (Inr table)
  with assms have "supp = table" by (simp add: load_supplemental_def)
  with Inr show ?thesis by (simp add: read_supplemental_keys)
next
  case (Inl e)
  with assms have "supp = DataFrame_columns [''giga_id'']"
    by (cases e) (simp_all add: load_supplemental_def)
  then show ?thesis by (simp add: DataFrame_columns_def frame_keys_def)
qed

text \<open>The column \<open>connectivity_status\<close> comes through the update and the
  assignments as the frame of the schools has it; \<open>connected\<close> is computed
  from it.\<close>

lemma transform_returns:
  assumes "transform env frame0 supp0 = Inr out"
    and "''connectivity_status'' \<notin> set (frame_keys supp0)"
  shows "\<exists>status.
           map_of (cols frame0) ''connectivity_status'' = Some status
         \<and> (''connectivity_speed_status'', status) \<in> set (cols out)
         \<and> map_of (cols out) ''connected''
             = Some (map (\<lambda>x. PBool (x = PStr ''Good'' \<or> x = PStr ''Moderate'')) status)"
proof -
  let ?names = "[(''giga_id'', ''giga_id_school''),
                 (''school_zone'', ''environment''),
                 (''connectivity_status'', ''connectivity_speed_status'')]"
  from assms(1) obtain supp frame1 frame2 frame3 students flags where
    supp: "set_index ''giga_id'' supp0 = Inr supp"
    and frame1: "set_index ''giga_id'' frame0 = Inr frame1"
    and frame2: "frame_update (pd_reindex_raises env) (pd_update_values env) frame1 supp = Inr frame2"
    and frame3: "reset_index frame2 = Inr frame3"
    and fl: "apply_column ''connectivity_status'' connected_lambda
               (set_column ''num_students'' students frame3) = Inr flags"
    and out: "out = rename_columns ?names
                (set_column ''connected'' flags (set_column ''num_students'' students frame3))"
    by (auto simp: transform_def split: sum.splits)
  from assms(2) have "map_of (cols supp0) ''connectivity_status'' = None"
    by (simp add: frame_keys_def map_of_eq_None_iff)
  with supp have none: "map_of (cols supp) ''connectivity_status'' = None"
    by (auto simp: set_index_def map_of_filter_other split: option.splits)
  from frame1 obtain ids where
    i1: "index frame1 = Some (''giga_id'', ids)"
    and c1: "map_of (cols frame1) ''connectivity_status'' = map_of (cols frame0) ''connectivity_status''"
    by (auto simp: set_index_def map_of_filter_other split: option.splits)
  from frame2 none have
    i2: "index frame2 = index frame1"
    and c2: "map_of (cols frame2) ''connectivity_status'' = map_of (cols frame1) ''connectivity_status''"
    by (auto simp: frame_update_def map_of_updated_cols split: if_splits)
  from frame3 i1 i2 have "cols frame3 = (''giga_id'', ids) # cols frame2"
    by (auto simp: reset_index_def split: if_splits)
  with c1 c2 have
    "map_of (cols (set_column ''num_students'' students frame3)) ''connectivity_status''
       = map_of (cols frame0) ''connectivity_status''"
    by (simp add: set_column_def map_of_assign_other)
  with fl obtain status where
    st0: "map_of (cols frame0) ''connectivity_status'' = Some status"
    and st: "map_of (cols (set_column ''num_students'' students frame3)) ''connectivity_status''
               = Some status"
    and flags: "flags = map (\<lambda>x. PBool (x = PStr ''Good'' \<or> x = PStr ''Moderate'')) status"
    by (auto simp: apply_column_def apply_values_connected split: option.splits)
  let ?pre = "set_column ''connected'' flags (set_column ''num_students'' students frame3)"
  from st have "(''connectivity_status'', status)
                 \<in> set (cols (set_column ''num_students'' students frame3))"
    by (rule map_of_SomeD)
  then have "(''connectivity_status'', status) \<in> set (cols ?pre)"
    by (simp add: set_column_def assign_keeps)
  from rename_columns_mem [OF this, of ?names]
  have r1: "(''connectivity_speed_status'', status) \<in> set (cols out)"
    by (simp add: out)
  have "map_of (cols out) ''connected'' = map_of (cols ?pre) ''connected''"
    unfolding out by (rule map_of_rename_connected)
  then have r2: "map_of (cols out) ''connected'' = Some flags"
    by (simp add: set_column_def map_of_assign_same)
  from st0 r1 r2 flags show ?thesis by blast
qed

subsection \<open>The ways out of \<open>main\<close>\<close>

lemma write_schools_returns:
  assumes "write_schools env d fr w = (Inr (), w')"
  shows "\<exists>w2. DataFrame_to_csv env fr (path_join d ''schools.csv'') w2 = (Inr (), w')"
  using assms
  by (auto simp: write_schools_def split: if_splits prod.splits sum.splits)

lemma fetch_main_returns:
  assumes "fetch_main env cl w = (Inr (), w')"
  shows "\<exists>a raw_schools supp frame0 out.
    fetch_parse_args (REGISTERED_COUNTRIES env) cl = Inr a
  \<and> GigaAPIClient_get_schools env (api_token a) (country a) = Inr raw_schools
  \<and> raw_schools \<noteq> []
  \<and> load_supplemental env
       (LOGGER_info (''Fetching up to date schools for country: '' @ title (country a)) w)
       (fetch_workspace_directory a) = Inr supp
  \<and> GigaSchoolTable_to_data_frame env raw_schools = Inr frame0
  \<and> transform env frame0 supp = Inr out
  \<and> write_schools env (fetch_workspace_directory a) out
       (LOGGER_info (''Fetching up to date schools for country: '' @ title (country a)) w)
     = (Inr (), w')"
proof (cases "fetch_parse_args (REGISTERED_COUNTRIES env) cl")
  case (Inl e)
  with assms show ?thesis by (simp add: fetch_main_def)
next
  case (Inr a)
  let ?w = "LOGGER_info (''Fetching up to date schools for country: '' @ title (country a)) w"
  from assms Inr obtain raw_schools where
    raw: "GigaAPIClient_get_schools env (api_token a) (country a) = Inr raw_schools"
    by (cases "GigaAPIClient_get_schools env (api_token a) (country a)")
       (simp_all add: fetch_main_def)
  from assms Inr raw obtain supp where
    supp: "load_supplemental env ?w (fetch_workspace_directory a) = Inr supp"
    by (cases "load_supplemental env ?w (fetch_workspace_directory a)")
       (simp_all add: fetch_main_def)
  from assms Inr raw supp have ne: "raw_schools \<noteq> []"
    by (auto simp: fetch_main_def)
  from assms Inr raw supp ne obtain frame0 where
    frame0: "GigaSchoolTable_to_data_frame env raw_schools = Inr frame0"
    by (cases "GigaSchoolTable_to_data_frame env raw_schools") (simp_all add: fetch_main_def)
  from assms Inr raw supp ne frame0 obtain out where
    out: "transform env frame0 supp = Inr out"
    by (cases "transform env frame0 supp") (simp_all add: fetch_main_def)
  from assms Inr raw supp ne frame0 out
  have "write_schools env (fetch_workspace_directory a) out ?w = (Inr (), w')"
    by (simp add: fetch_main_def)
  with Inr raw supp ne frame0 out show ?thesis by blast
qed

text \<open>The definitions that a run on the example inputs unfolds.\<close>

lemmas fetch_eval =
  fetch_main_def example_fetch_env_def example_fetch_cli_def example_fetch_args_def
  example_header_def bare_world_def supplemental_world_def
  fetch_parse_args_def LOGGER_info_def title_def is_lower_def is_upper_def to_upper_def to_lower_def
  load_supplemental_def read_supplemental_def read_csv_def path_join_def required_columns_def
  DataFrame_columns_def transform_def set_index_def frame_update_def index_labels_def
  reset_index_def frame_keys_def apply_column_def num_students_lambda_def py_int_def
  connected_lambda_def set_column_def rename_columns_def write_schools_def
  n_rows_def select_columns_def

subsection \<open>Claims\<close>

text \<open>
  C6. When \<open>schools_supplemental.csv\<close> exists and is read as a table that
  lacks one of the columns \<open>giga_id_school\<close>, \<open>electricity\<close>, \<open>fiber\<close>,
  \<open>num_students\<close>, \<open>coverage_type\<close>, the run ends in an exception and
  writes nothing; once the API has answered, the exception is the assertion
  error whose message says that the supplemental data is missing required
  columns.
\<close>

theorem supplemental_without_required_column_aborts:
  assumes "fetch_parse_args (REGISTERED_COUNTRIES env) cl = Inr a"
    and "files w (path_join (fetch_workspace_directory a) ''schools_supplemental.csv'') = Some text"
    and "pd_read_csv env text = Inr supp"
    and "k \<in> set [''giga_id_school'', ''electricity'', ''fiber'', ''num_students'', ''coverage_type'']"
    and "k \<notin> set (frame_keys supp)"
  shows "(\<exists>e. fst (fetch_main env cl w) = Inl e)
       \<and> files (snd (fetch_main env cl w)) = files w
       \<and> dirs (snd (fetch_main env cl w)) = dirs w
       \<and> (\<forall>raw_schools.
            GigaAPIClient_get_schools env (api_token a) (country a) = Inr raw_schools \<longrightarrow>
            fst (fetch_main env cl w) =
              Inl (AssertionError ''Supplemental data is missing required columns''))"
proof -
  let ?w = "LOGGER_info (''Fetching up to date schools for country: '' @ title (country a)) w"
  from assms(4,5)
  have "\<not> list_all (\<lambda>k. k \<in> set (frame_keys supp)) required_columns"
    unfolding required_columns_def list_all_iff by blast
  with assms(2,3)
  have "read_supplemental env ?w (fetch_workspace_directory a) =
          Inl (AssertionError ''Supplemental data is missing required columns'')"
    by (simp add: read_supplemental_def read_csv_def LOGGER_info_def)
  then have load: "load_supplemental env ?w (fetch_workspace_directory a) =
          Inl (AssertionError ''Supplemental data is missing required columns'')"
    by (simp add: load_supplemental_def)
  have msg: "fst (fetch_main env cl w) =
               Inl (AssertionError ''Supplemental data is missing required columns'')"
    if "GigaAPIClient_get_schools env (api_token a) (country a) = Inr raw_schools"
    for raw_schools
    using assms(1) load that by (simp add: fetch_main_def)
  have "\<exists>e. fetch_main env cl w = (Inl e, ?w)"
    using assms(1) load
    by (cases "GigaAPIClient_get_schools env (api_token a) (country a)")
       (simp_all add: fetch_main_def)
  then obtain e where "fetch_main env cl w = (Inl e, ?w)" ..
  then have "fst (fetch_main env cl w) = Inl e"
    and "files (snd (fetch_main env cl w)) = files w"
    and "dirs (snd (fetch_main env cl w)) = dirs w"
    by (simp_all add: LOGGER_info_def)
  with msg show ?thesis by blast
qed

theorem supplemental_without_required_column_witness:
  "fetch_parse_args (REGISTERED_COUNTRIES example_fetch_env) (example_fetch_cli ''rwanda'')
     = Inr (example_fetch_args ''rwanda'')
   \<and> files supplemental_world ''ws/schools_supplemental.csv'' = Some ''giga_id_school,electricity''
   \<and> ''fiber'' \<notin> set (frame_keys \<lparr>index = None,
         cols = [(''giga_id_school'', [PStr ''s1'']), (''electricity'', [PBool True])]\<rparr>)
   \<and> fetch_main example_fetch_env (example_fetch_cli ''rwanda'') supplemental_world =
       (Inl (AssertionError ''Supplemental data is missing required columns''),
        \<lparr>files = [''ws/schools_supplemental.csv'' \<mapsto> ''giga_id_school,electricity''],
         dirs = {''ws''},
         logger = [(INFO, ''Fetching up to date schools for country: Rwanda'')]\<rparr>)"
  using supplemental_without_required_column_aborts
    [of example_fetch_env "example_fetch_cli ''rwanda''" "example_fetch_args ''rwanda''"
        supplemental_world "''giga_id_school,electricity''"
        "\<lparr>index = None,
         cols = [(''giga_id_school'', [PStr ''s1'']), (''electricity'', [PBool True])]\<rparr>"
        "''fiber''"]
  by (simp add: fetch_eval)

text \<open>
  C7. When the API returns no school, the run ends in an exception, and no
  file and no directory has been written or made by then; when the
  supplemental table was loaded without an exception of its own, the
  exception is the assertion error that no schools were found.
\<close>

theorem no_schools_aborts_before_output:
  assumes "fetch_parse_args (REGISTERED_COUNTRIES env) cl = Inr a"
    and "GigaAPIClient_get_schools env (api_token a) (country a) = Inr []"
  shows "(\<exists>e. fst (fetch_main env cl w) = Inl e)
       \<and> files (snd (fetch_main env cl w)) = files w
       \<and> dirs (snd (fetch_main env cl w)) = dirs w
       \<and> (\<forall>supp.
            load_supplemental env
              (LOGGER_info (''Fetching up to date schools for country: '' @ title (country a)) w)
              (fetch_workspace_directory a) = Inr supp \<longrightarrow>
            fst (fetch_main env cl w) =
              Inl (AssertionError
                ''No schools found for country, perhaps there is an issue with the project connect API''))"
proof -
  let ?w = "LOGGER_info (''Fetching up to date schools for country: '' @ title (country a)) w"
  have "\<exists>e. fetch_main env cl w = (Inl e, ?w)"
    using assms
    by (cases "load_supplemental env ?w (fetch_workspace_directory a)")
       (simp_all add: fetch_main_def)
  then obtain e where "fetch_main env cl w = (Inl e, ?w)" ..
  then have fails: "\<exists>e. fst (fetch_main env cl w) = Inl e"
    and "files (snd (fetch_main env cl w)) = files w \<and> dirs (snd (fetch_main env cl w)) = dirs w"
    by (simp_all add: LOGGER_info_def)
  moreover have "fst (fetch_main env cl w) =
              Inl (AssertionError
                ''No schools found for country, perhaps there is an issue with the project connect API'')"
    if "load_supplemental env ?w (fetch_workspace_directory a) = Inr supp" for supp
    using assms that by (simp add: fetch_main_def)
  ultimately show ?thesis using fails by blast
qed

theorem no_schools_witness:
  "fetch_parse_args (REGISTERED_COUNTRIES example_fetch_env) (example_fetch_cli ''brazil'')
     = Inr (example_fetch_args ''brazil'')
   \<and> GigaAPIClient_get_schools example_fetch_env ''token'' ''brazil'' = Inr []
   \<and> load_supplemental example_fetch_env
        (LOGGER_info (''Fetching up to date schools for country: '' @ title ''brazil'') bare_world)
        ''ws'' = Inr (DataFrame_columns [''giga_id''])
   \<and> fst (fetch_main example_fetch_env (example_fetch_cli ''brazil'') bare_world) =
       Inl (AssertionError
         ''No schools found for country, perhaps there is an issue with the project connect API'')
   \<and> files (snd (fetch_main example_fetch_env (example_fetch_cli ''brazil'') bare_world))
       = Map.empty
   \<and> dirs (snd (fetch_main example_fetch_env (example_fetch_cli ''brazil'') bare_world)) = {}"
  using no_schools_aborts_before_output
    [of example_fetch_env "example_fetch_cli ''brazil''" "example_fetch_args ''brazil''"
        bare_world]
  by (simp add: fetch_eval)

text \<open>
  C8, as the claim is written: "if the supplemental table is absent, the run
  does not fail". It does fail when the API returns no school, with the
  supplemental table absent all the same.
\<close>

theorem absent_supplemental_with_no_schools_fails:
  "files bare_world (path_join ''ws'' ''schools_supplemental.csv'') = None
   \<and> fetch_main example_fetch_env (example_fetch_cli ''brazil'') bare_world =
       (Inl (AssertionError
          ''No schools found for country, perhaps there is an issue with the project connect API''),
        \<lparr>files = Map.empty, dirs = {},
         logger = [(INFO, ''Fetching up to date schools for country: Brazil'')]\<rparr>)"
  by (simp add: fetch_eval)

text \<open>
  C8, amended. When \<open>schools_supplemental.csv\<close> is entirely absent (no text
  can be read from the path and opening it raises \<open>FileNotFoundError\<close>),
  its absence raises nothing further and the supplemental input is the
  table with the one column \<open>giga_id\<close> and no row. If moreover the API returns at least one school, the frame of the
  schools has the columns \<open>giga_id\<close>, \<open>num_students\<close> and
  \<open>connectivity_status\<close>, \<open>int\<close> accepts every value of \<open>num_students\<close>,
  the workspace directory exists or \<open>os.makedirs\<close> makes it, and \<open>to_csv\<close>
  writes the file, then the run returns normally, and the table handed to
  \<open>to_csv\<close> is made of the primary data alone: the frame of the schools
  with \<open>giga_id\<close> moved to the front, \<open>num_students\<close> converted,
  \<open>connected\<close> computed and the columns renamed, no cell of it changed by
  an update.
\<close>

theorem absent_supplemental_leaves_primary_unchanged:
  assumes "fetch_parse_args (REGISTERED_COUNTRIES env) cl = Inr a"
    and "files w (path_join (fetch_workspace_directory a) ''schools_supplemental.csv'') = None"
    and "os_open_error env wl
           (path_join (fetch_workspace_directory a) ''schools_supplemental.csv'')
           = FileNotFoundError msg"
    and "GigaAPIClient_get_schools env (api_token a) (country a) = Inr raw_schools"
    and "raw_schools \<noteq> []"
    and "GigaSchoolTable_to_data_frame env raw_schools = Inr primary"
    and "map_of (cols primary) ''giga_id'' = Some ids"
    and "map_of (cols primary) ''num_students'' = Some ns"
    and "apply_values (num_students_lambda (int_of_str env)) ns = Inr students"
    and "map_of (cols primary) ''connectivity_status'' = Some status"
    and "out =
           rename_columns
             [(''giga_id'', ''giga_id_school''),
              (''school_zone'', ''environment''),
              (''connectivity_status'', ''connectivity_speed_status'')]
             (set_column ''connected''
                (map (\<lambda>x. PBool (x = PStr ''Good'' \<or> x = PStr ''Moderate'')) status)
                (set_column ''num_students'' students
                   \<lparr>index = None,
                    cols = (''giga_id'', ids) # [c \<leftarrow> cols primary. fst c \<noteq> ''giga_id'']\<rparr>))"
    and "wl = LOGGER_info (''Fetching up to date schools for country: '' @ title (country a)) w"
    and "if os_path_exists env wl (fetch_workspace_directory a) then wd = wl
         else os_makedirs env (fetch_workspace_directory a) wl = (Inr (), wd)"
    and "DataFrame_to_csv env out
           (path_join (fetch_workspace_directory a) ''schools.csv'') wd = (Inr (), w')"
  shows "load_supplemental env wl (fetch_workspace_directory a)
           = Inr (DataFrame_columns [''giga_id''])
       \<and> n_rows (DataFrame_columns [''giga_id'']) = 0
       \<and> transform env primary (DataFrame_columns [''giga_id'']) = Inr out
       \<and> fetch_main env cl w = (Inr (), w')"
proof -
  let ?rest = "[c \<leftarrow> cols primary. fst c \<noteq> ''giga_id'']"
  let ?frame3 = "\<lparr>index = None, cols = (''giga_id'', ids) # ?rest\<rparr>"
  have "files wl = files w"
    using assms(12) by (simp add: LOGGER_info_def)
  with assms(2,3)
  have load: "load_supplemental env wl (fetch_workspace_directory a)
                = Inr (DataFrame_columns [''giga_id''])"
    by (simp add: load_supplemental_def read_supplemental_def read_csv_def)
  have supp: "set_index ''giga_id'' (DataFrame_columns [''giga_id''])
                = Inr \<lparr>index = Some (''giga_id'', []), cols = []\<rparr>"
    by (simp add: set_index_def DataFrame_columns_def)
  have frame1: "set_index ''giga_id'' primary = Inr \<lparr>index = Some (''giga_id'', ids), cols = ?rest\<rparr>"
    using assms(7) by (simp add: set_index_def)
  have update: "frame_update (pd_reindex_raises env) (pd_update_values env)
                  \<lparr>index = Some (''giga_id'', ids), cols = ?rest\<rparr>
                  \<lparr>index = Some (''giga_id'', []), cols = []\<rparr>
                = Inr \<lparr>index = Some (''giga_id'', ids), cols = ?rest\<rparr>"
    by (simp add: frame_update_def index_labels_def case_prod_beta)
  have reset: "reset_index \<lparr>index = Some (''giga_id'', ids), cols = ?rest\<rparr> = Inr ?frame3"
    by (auto simp: reset_index_def frame_keys_def)
  have students: "apply_column ''num_students'' (num_students_lambda (int_of_str env)) ?frame3
                    = Inr students"
    using assms(8,9) by (simp add: apply_column_def map_of_filter_other)
  have flags: "apply_column ''connectivity_status'' connected_lambda
                 (set_column ''num_students'' students ?frame3)
               = Inr (map (\<lambda>x. PBool (x = PStr ''Good'' \<or> x = PStr ''Moderate'')) status)"
    using assms(10)
    by (simp add: apply_column_def set_column_def map_of_assign_other map_of_filter_other
          apply_values_connected)
  have tr: "transform env primary (DataFrame_columns [''giga_id'']) = Inr out"
    unfolding transform_def assms(11)
    by (simp only: supp frame1 update reset students flags sum.case)
  have wr: "write_schools env (fetch_workspace_directory a) out wl = (Inr (), w')"
    using assms(13,14) by (auto simp: write_schools_def split: if_splits)
  from assms(1,4,5,6,12) load tr wr
  have "fetch_main env cl w = (Inr (), w')"
    by (simp add: fetch_main_def)
  with load tr show ?thesis
    by (simp add: DataFrame_columns_def n_rows_def)
qed

theorem absent_supplemental_witness:
  "fetch_parse_args (REGISTERED_COUNTRIES example_fetch_env) (example_fetch_cli ''rwanda'')
     = Inr (example_fetch_args ''rwanda'')
   \<and> files bare_world (path_join ''ws'' ''schools_supplemental.csv'') = None
   \<and> os_open_error example_fetch_env
        \<lparr>files = Map.empty, dirs = {},
         logger = [(INFO, ''Fetching up to date schools for country: Rwanda'')]\<rparr>
        (path_join ''ws'' ''schools_supplemental.csv'')
       = FileNotFoundError ''ws/schools_supplemental.csv''
   \<and> GigaAPIClient_get_schools example_fetch_env ''token'' ''rwanda'' = Inr [''s1'', ''s2'']
   \<and> apply_values (num_students_lambda (int_of_str example_fetch_env)) [PInt 120, PNone]
       = Inr [PInt 120, PInt 0]
   \<and> \<not> os_path_exists example_fetch_env bare_world ''ws''
   \<and> transform example_fetch_env
        \<lparr>index = None,
         cols = [(''giga_id'', [PStr ''s1'', PStr ''s2'']),
                 (''num_students'', [PInt 120, PNone]),
                 (''connectivity_status'', [PStr ''Good'', PStr ''unknown''])]\<rparr>
        (DataFrame_columns [''giga_id''])
       = Inr \<lparr>index = None,
              cols = [(''giga_id_school'', [PStr ''s1'', PStr ''s2'']),
                      (''num_students'', [PInt 120, PInt 0]),
                      (''connectivity_speed_status'', [PStr ''Good'', PStr ''unknown'']),
                      (''connected'', [PBool True, PBool False])]\<rparr>
   \<and> fetch_main example_fetch_env (example_fetch_cli ''rwanda'') bare_world =
       (Inr (),
        \<lparr>files = [''ws/schools.csv'' \<mapsto>
                    ''giga_id_school,num_students,connectivity_speed_status,connected,''],
         dirs = {''ws''},
         logger = [(INFO, ''Fetching up to date schools for country: Rwanda'')]\<rparr>)"
proof -
  let ?primary = "\<lparr>index = None,
          cols = [(''giga_id'', [PStr ''s1'', PStr ''s2'']),
                  (''num_students'', [PInt 120, PNone]),
                  (''connectivity_status'', [PStr ''Good'', PStr ''unknown''])]\<rparr>"
  let ?out = "\<lparr>index = None,
          cols = [(''giga_id_school'', [PStr ''s1'', PStr ''s2'']),
                  (''num_students'', [PInt 120, PInt 0]),
                  (''connectivity_speed_status'', [PStr ''Good'', PStr ''unknown'']),
                  (''connected'', [PBool True, PBool False])]\<rparr>"
  let ?wl = "\<lparr>files = Map.empty, dirs = {},
          logger = [(INFO, ''Fetching up to date schools for country: Rwanda'')]\<rparr>"
  let ?wd = "\<lparr>files = Map.empty, dirs = {''ws''},
          logger = [(INFO, ''Fetching up to date schools for country: Rwanda'')]\<rparr>"
  let ?w' = "\<lparr>files = [''ws/schools.csv'' \<mapsto>
                    ''giga_id_school,num_students,connectivity_speed_status,connected,''],
          dirs = {''ws''},
          logger = [(INFO, ''Fetching up to date schools for country: Rwanda'')]\<rparr>"
  have h1: "fetch_parse_args (REGISTERED_COUNTRIES example_fetch_env) (example_fetch_cli ''rwanda'')
              = Inr (example_fetch_args ''rwanda'')"
    by (simp add: fetch_parse_args_def example_fetch_env_def example_fetch_cli_def
          example_fetch_args_def)
  have h2: "files bare_world
              (path_join (fetch_workspace_directory (example_fetch_args ''rwanda''))
                 ''schools_supplemental.csv'') = None"
    by (simp add: bare_world_def)
  have h3: "os_open_error example_fetch_env ?wl
              (path_join (fetch_workspace_directory (example_fetch_args ''rwanda''))
                 ''schools_supplemental.csv'')
            = FileNotFoundError ''ws/schools_supplemental.csv''"
    by (simp add: example_fetch_env_def example_fetch_args_def path_join_def)
  have h4: "GigaAPIClient_get_schools example_fetch_env
              (api_token (example_fetch_args ''rwanda'')) (country (example_fetch_args ''rwanda''))
            = Inr [''s1'', ''s2'']"
    by (simp add: example_fetch_env_def example_fetch_args_def)
  have h5: "[''s1'', ''s2''] \<noteq> ([] :: string list)"
    by simp
  have h6: "GigaSchoolTable_to_data_frame example_fetch_env [''s1'', ''s2''] = Inr ?primary"
    by (simp add: example_fetch_env_def)
  have h7: "map_of (cols ?primary) ''giga_id'' = Some [PStr ''s1'', PStr ''s2'']"
    and h8: "map_of (cols ?primary) ''num_students'' = Some [PInt 120, PNone]"
    and h10: "map_of (cols ?primary) ''connectivity_status'' = Some [PStr ''Good'', PStr ''unknown'']"
    by simp_all
  have h9: "apply_values (num_students_lambda (int_of_str example_fetch_env)) [PInt 120, PNone]
              = Inr [PInt 120, PInt 0]"
    by (simp add: num_students_lambda_def py_int_def)
  have h11: "?out =
           rename_columns
             [(''giga_id'', ''giga_id_school''),
              (''school_zone'', ''environment''),
              (''connectivity_status'', ''connectivity_speed_status'')]
             (set_column ''connected''
                (map (\<lambda>x. PBool (x = PStr ''Good'' \<or> x = PStr ''Moderate''))
                   [PStr ''Good'', PStr ''unknown''])
                (set_column ''num_students'' [PInt 120, PInt 0]
                   \<lparr>index = None,
                    cols = (''giga_id'', [PStr ''s1'', PStr ''s2''])
                           # [c \<leftarrow> cols ?primary. fst c \<noteq> ''giga_id'']\<rparr>))"
    by (simp add: rename_columns_def set_column_def)
  have h12: "?wl = LOGGER_info
               (''Fetching up to date schools for country: ''
                  @ title (country (example_fetch_args ''rwanda''))) bare_world"
    by (simp add: LOGGER_info_def bare_world_def example_fetch_args_def title_def
          is_lower_def is_upper_def to_upper_def to_lower_def)
  have e: "\<not> os_path_exists example_fetch_env ?wl
               (fetch_workspace_directory (example_fetch_args ''rwanda''))"
    by (simp add: example_fetch_env_def example_fetch_args_def)
  have m: "os_makedirs example_fetch_env
             (fetch_workspace_directory (example_fetch_args ''rwanda'')) ?wl = (Inr (), ?wd)"
    by (simp add: example_fetch_env_def example_fetch_args_def)
  from e m have h13:
    "if os_path_exists example_fetch_env ?wl
          (fetch_workspace_directory (example_fetch_args ''rwanda''))
     then ?wd = ?wl
     else os_makedirs example_fetch_env
            (fetch_workspace_directory (example_fetch_args ''rwanda'')) ?wl = (Inr (), ?wd)"
    by (simp only: if_False)
  have h14: "DataFrame_to_csv example_fetch_env ?out
               (path_join (fetch_workspace_directory (example_fetch_args ''rwanda''))
                  ''schools.csv'') ?wd = (Inr (), ?w')"
    by (simp add: example_fetch_env_def example_fetch_args_def example_header_def path_join_def)
  note run = absent_supplemental_leaves_primary_unchanged
    [OF h1 h2 h3 h4 h5 h6 h7 h8 h9 h10 h11 h12 h13 h14]
  from run have r1: "transform example_fetch_env ?primary (DataFrame_columns [''giga_id''])
                       = Inr ?out"
    and r2: "fetch_main example_fetch_env (example_fetch_cli ''rwanda'') bare_world
               = (Inr (), ?w')"
    by blast+
  have d: "fetch_workspace_directory (example_fetch_args ''rwanda'') = ''ws''"
    and t: "api_token (example_fetch_args ''rwanda'') = ''token''"
    and c: "country (example_fetch_args ''rwanda'') = ''rwanda''"
    by (simp_all add: example_fetch_args_def)
  have e': "\<not> os_path_exists example_fetch_env bare_world ''ws''"
    by (simp add: example_fetch_env_def bare_world_def)
  from h1 h2 [unfolded d] h3 [unfolded d] h4 [unfolded t c] h9 e' r1 r2 show ?thesis
    by (intro conjI)
qed

text \<open>
  C10. Whenever the run returns, the table handed to \<open>to_csv\<close> for
  \<open>schools.csv\<close> has the column \<open>connected\<close> computed row by row from the
  column \<open>connectivity_status\<close> of the frame of the schools the API
  returned, which the table carries as \<open>connectivity_speed_status\<close>: true
  where the status is the string \<open>Good\<close> or the string \<open>Moderate\<close>, false
  for every other value.
\<close>

theorem connected_flag_follows_connectivity_status:
  assumes "fetch_main env cl w = (Inr (), w')"
  shows "\<exists>a raw_schools frame0 out w2 status.
           fetch_parse_args (REGISTERED_COUNTRIES env) cl = Inr a
         \<and> GigaAPIClient_get_schools env (api_token a) (country a) = Inr raw_schools
         \<and> GigaSchoolTable_to_data_frame env raw_schools = Inr frame0
         \<and> map_of (cols frame0) ''connectivity_status'' = Some status
         \<and> DataFrame_to_csv env out
             (path_join (fetch_workspace_directory a) ''schools.csv'') w2 = (Inr (), w')
         \<and> (''connectivity_speed_status'', status) \<in> set (cols out)
         \<and> map_of (cols out) ''connected''
             = Some (map (\<lambda>x. PBool (x = PStr ''Good'' \<or> x = PStr ''Moderate'')) status)"
proof -
  from fetch_main_returns [OF assms] obtain a raw_schools supp frame0 out where
    a: "fetch_parse_args (REGISTERED_COUNTRIES env) cl = Inr a"
    and raw: "GigaAPIClient_get_schools env (api_token a) (country a) = Inr raw_schools"
    and supp: "load_supplemental env
       (LOGGER_info (''Fetching up to date schools for country: '' @ title (country a)) w)
       (fetch_workspace_directory a) = Inr supp"
    and frame0: "GigaSchoolTable_to_data_frame env raw_schools = Inr frame0"
    and t: "transform env frame0 supp = Inr out"
    and wr: "write_schools env (fetch_workspace_directory a) out
       (LOGGER_info (''Fetching up to date schools for country: '' @ title (country a)) w)
     = (Inr (), w')"
    by blast
  from supp have "''connectivity_status'' \<notin> set (frame_keys supp)"
    by (rule load_supplemental_keys)
  with t obtain status where
    st: "map_of (cols frame0) ''connectivity_status'' = Some status"
    and r1: "(''connectivity_speed_status'', status) \<in> set (cols out)"
    and r2: "map_of (cols out) ''connected''
               = Some (map (\<lambda>x. PBool (x = PStr ''Good'' \<or> x = PStr ''Moderate'')) status)"
    using transform_returns by blast
  from wr obtain w2 where
    "DataFrame_to_csv env out (path_join (fetch_workspace_directory a) ''schools.csv'') w2
       = (Inr (), w')"
    using write_schools_returns by blast
  with a raw frame0 st r1 r2 show ?thesis by blast
qed

theorem connected_flag_witness:
  "fetch_main example_fetch_env (example_fetch_cli ''rwanda'') bare_world =
     (Inr (),
      \<lparr>files = [''ws/schools.csv'' \<mapsto>
                  ''giga_id_school,num_students,connectivity_speed_status,connected,''],
       dirs = {''ws''},
       logger = [(INFO, ''Fetching up to date schools for country: Rwanda'')]\<rparr>)
   \<and> (\<exists>a raw_schools frame0 out w2 status.
         fetch_parse_args (REGISTERED_COUNTRIES example_fetch_env) (example_fetch_cli ''rwanda'')
           = Inr a
       \<and> GigaAPIClient_get_schools example_fetch_env (api_token a) (country a) = Inr raw_schools
       \<and> GigaSchoolTable_to_data_frame example_fetch_env raw_schools = Inr frame0
       \<and> map_of (cols frame0) ''connectivity_status'' = Some status
       \<and> DataFrame_to_csv example_fetch_env out
           (path_join (fetch_workspace_directory a) ''schools.csv'') w2
           = (Inr (),
              \<lparr>files = [''ws/schools.csv'' \<mapsto>
                          ''giga_id_school,num_students,connectivity_speed_status,connected,''],
               dirs = {''ws''},
               logger = [(INFO, ''Fetching up to date schools for country: Rwanda'')]\<rparr>)
       \<and> (''connectivity_speed_status'', status) \<in> set (cols out)
       \<and> map_of (cols out) ''connected''
           = Some (map (\<lambda>x. PBool (x = PStr ''Good'' \<or> x = PStr ''Moderate'')) status))"
proof -
  have run: "fetch_main example_fetch_env (example_fetch_cli ''rwanda'') bare_world =
     (Inr (),
      \<lparr>files = [''ws/schools.csv'' \<mapsto>
                  ''giga_id_school,num_students,connectivity_speed_status,connected,''],
       dirs = {''ws''},
       logger = [(INFO, ''Fetching up to date schools for country: Rwanda'')]\<rparr>)"
    by (simp add: fetch_eval)
  from connected_flag_follows_connectivity_status [OF run] run show ?thesis
    by simp
qed

section \<open>The distance engine of the specification: properties\<close>

subsection \<open>Assignments to a dictionary\<close>

lemma keys_assign: "set (map fst (assign k v xs)) = insert k (set (map fst xs))"
proof (induction xs)
  case Nil
  show ?case by simp
next
  case (Cons e xs)
  obtain k' v' where "e = (k', v')" by (cases e)
  with Cons show ?case by (cases "k' = k") (simp_all add: insert_commute)
qed

lemma distinct_assign: "distinct (map fst xs) \<Longrightarrow> distinct (map fst (assign k v xs))"
proof (induction xs)
  case Nil
  then show ?case by simp
next
  case (Cons e xs)
  then show ?case using keys_assign [of k v xs] by (cases e) auto
qed

lemma assign_twice: "assign k v (assign k v0 xs) = assign k v xs"
  by (induction xs) auto

lemma assign_commute:
  "k \<noteq> k' \<Longrightarrow> k \<in> set (map fst xs) \<Longrightarrow>
     assign k v (assign k' v' xs) = assign k' v' (assign k v xs)"
proof (induction xs)
  case Nil
  then show ?case by simp
next
  case (Cons e xs)
  obtain a b where e: "e = (a, b)" by (cases e)
  show ?case
  proof (cases "a = k \<or> a = k'")
    case True
    with Cons.prems(1) e show ?thesis by auto
  next
    case False
    with Cons.prems e have "k \<in> set (map fst xs)" by auto
    with Cons.prems(1) have "assign k v (assign k' v' xs) = assign k' v' (assign k v xs)"
      by (rule Cons.IH)
    with False e show ?thesis by simp
  qed
qed

subsection \<open>Merging the mapping of a chunk\<close>

lemma merge_Cons: "merge acc ((k, v) # d) = merge (assign k v acc) d"
  by (simp add: merge_def)

lemma assign_merge_present:
  "k \<in> set (map fst acc) \<Longrightarrow> k \<notin> set (map fst d) \<Longrightarrow>
     assign k v (merge acc d) = merge (assign k v acc) d"
proof (induction d arbitrary: acc)
  case Nil
  then show ?case by (simp add: merge_def)
next
  case (Cons e d)
  obtain k' v' where e: "e = (k', v')" by (cases e)
  from Cons.prems e have ne: "k \<noteq> k'" and nd: "k \<notin> set (map fst d)" by auto
  from Cons.prems(1) have "k \<in> set (map fst (assign k' v' acc))"
    by (simp only: keys_assign) simp
  then have "assign k v (merge (assign k' v' acc) d) = merge (assign k v (assign k' v' acc)) d"
    using nd by (rule Cons.IH)
  also have "assign k v (assign k' v' acc) = assign k' v' (assign k v acc)"
    using ne Cons.prems(1) by (rule assign_commute)
  finally show ?case by (simp add: e merge_Cons)
qed

lemma merge_assign:
  "distinct (map fst d) \<Longrightarrow> merge acc (assign k v d) = assign k v (merge acc d)"
proof (induction d arbitrary: acc)
  case Nil
  then show ?case by (simp add: merge_def)
next
  case (Cons e d)
  obtain k' v' where e: "e = (k', v')" by (cases e)
  show ?case
  proof (cases "k' = k")
    case True
    with Cons.prems e have nd: "k \<notin> set (map fst d)" by auto
    have "k \<in> set (map fst (assign k v' acc))"
      by (simp only: keys_assign) simp
    then have "assign k v (merge (assign k v' acc) d) = merge (assign k v (assign k v' acc)) d"
      using nd by (rule assign_merge_present)
    with True e show ?thesis by (simp add: merge_Cons assign_twice)
  next
    case False
    from Cons.prems have "distinct (map fst d)" by simp
    then have "merge (assign k' v' acc) (assign k v d) = assign k v (merge (assign k' v' acc) d)"
      by (rule Cons.IH)
    with False e show ?thesis by (simp add: merge_Cons)
  qed
qed

lemma merge_fold_assign:
  "distinct (map fst d) \<Longrightarrow>
     merge acc (fold (\<lambda>q. assign (key q) (val q)) qs d)
       = fold (\<lambda>q. assign (key q) (val q)) qs (merge acc d)"
proof (induction qs arbitrary: d)
  case Nil
  then show ?case by simp
next
  case (Cons q qs)
  from Cons.prems have "distinct (map fst (assign (key q) (val q) d))"
    by (rule distinct_assign)
  then show ?case by (simp add: Cons.IH merge_assign Cons.prems)
qed

lemma merge_run_chunk:
  "merge acc (run_chunk geodesic m refs chunk)
     = fold (\<lambda>q. assign (coordinate_id q) (neighbor_list geodesic m refs q)) chunk acc"
  unfolding run_chunk_def
  using merge_fold_assign [of "[]" acc coordinate_id "neighbor_list geodesic m refs" chunk]
  by (simp add: merge_def)

subsection \<open>The chunks in turn\<close>

lemma run_all_distances:
  "fst (run_all f observer chunks i (acc, s)) = fold (\<lambda>chunk a. merge a (f chunk)) chunks acc"
  by (induction chunks arbitrary: i acc s) simp_all

lemma fold_chunks:
  "fold (\<lambda>chunk a. merge a (run_chunk geodesic m refs chunk)) chunks acc
     = fold (\<lambda>q. assign (coordinate_id q) (neighbor_list geodesic m refs q)) (concat chunks) acc"
  by (induction chunks arbitrary: acc) (simp_all add: merge_run_chunk)

lemma concat_split_chunks: "0 < k \<Longrightarrow> concat (split_chunks k sz xs) = xs"
  by (induction k sz xs rule: split_chunks.induct) simp_all

lemma neighbor_list_progress_bar:
  "neighbor_list geodesic (m\<lparr>progress_bar := b\<rparr>) = neighbor_list geodesic m"
  by (intro ext) (simp add: neighbor_list_def)

lemma run_all_split_chunks:
  assumes "1 \<le> n"
  shows "fst (run_all (run_chunk geodesic m refs) observer (split_chunks (nat n) sz queries) i ([], s))
       = fold (\<lambda>q. assign (coordinate_id q) (neighbor_list geodesic m refs q)) queries []"
proof -
  from assms have "0 < nat n" by simp
  then have "concat (split_chunks (nat n) sz queries) = queries"
    by (rule concat_split_chunks)
  then show ?thesis by (simp add: run_all_distances fold_chunks)
qed

text \<open>What the engine returns: the configuration errors apart, the mapping
  built query by query, whatever the chunks and whoever observes.\<close>

lemma run_chunks_distances:
  "fst (run_chunks geodesic notify m (queries, refs) n s) =
     (if model_n_nearest_neighbors m < 1 then
        Inl (ConfigurationError ''n_nearest_neighbors must be at least 1'')
      else if \<not> nonnegative (model_maximum_distance m) then
        Inl (ConfigurationError ''maximum_distance must not be negative'')
      else if n < 1 then
        Inl (ConfigurationError ''n_chunks must be at least 1'')
      else
        Inr (fold (\<lambda>q. assign (coordinate_id q) (neighbor_list geodesic m refs q)) queries []))"
  by (simp add: run_chunks_def case_prod_beta run_all_split_chunks)

subsection \<open>Claims\<close>

text \<open>
  C2. For all queries and references, every configuration and every two
  chunk counts that are valid (at least 1; so 1 and the number of queries,
  when there is a query), the engine returns the same outcome: the same
  mapping from query identifier to neighbour list, in the same order of
  keys, or the same configuration error.
\<close>

theorem chunk_count_does_not_change_result:
  assumes "1 \<le> n1" and "1 \<le> n2"
  shows "fst (run_chunks geodesic notify m (queries, refs) n1 s)
       = fst (run_chunks geodesic notify m (queries, refs) n2 s)"
  using assms by (simp add: run_chunks_distances)

theorem chunk_count_witness:
  "(1 :: int) \<le> 1 \<and> (1 :: int) \<le> 2
   \<and> run_chunks example_geodesic count_chunks example_model
        (example_queries, example_references) 1 0
       = (Inr [(''A'', [\<lparr>source_id = ''A'', target_id = ''T1'', distance_meters = 11100\<rparr>]),
               (''B'', [])], 1)
   \<and> run_chunks example_geodesic count_chunks example_model
        (example_queries, example_references) 2 0
       = (Inr [(''A'', [\<lparr>source_id = ''A'', target_id = ''T1'', distance_meters = 11100\<rparr>]),
               (''B'', [])], 2)"
  using chunk_count_does_not_change_result
    [of 1 2 example_geodesic count_chunks example_model example_queries example_references 0]
  by (simp add: run_chunks_def example_model_def example_queries_def example_references_def
        example_geodesic_def count_chunks_def nonnegative_def within_bound_def
        numeral_2_eq_2 run_chunk_def neighbor_list_def merge_def)

text \<open>
  C9. For the same coordinate collections, configuration and chunk count,
  the engine run with the progress channel on and run with it off returns
  the same outcome, whatever the observers and the states they start from.
\<close>

theorem progress_channel_does_not_change_result:
  "fst (run_chunks geodesic notify (m\<lparr>progress_bar := True\<rparr>) data n s)
     = fst (run_chunks geodesic notify' (m\<lparr>progress_bar := False\<rparr>) data n s')"
  by (cases data) (simp add: run_chunks_distances neighbor_list_progress_bar)

section \<open>The persisted cache: properties\<close>

subsection \<open>The cache of the specification\<close>

lemma build_single_Cons:
  "build_single ((k, ms) # d) =
     (case ms of [] \<Rightarrow> build_single d | m # _ \<Rightarrow> (k, m) # build_single d)"
  by (simp add: build_single_def List.map_filter_simps split: list.splits)

lemma set_build_single:
  "(k, m) \<in> set (build_single d) \<longleftrightarrow> (\<exists>ms. (k, m # ms) \<in> set d)"
proof (induction d)
  case Nil
  show ?case by (simp add: build_single_def List.map_filter_simps)
next
  case (Cons e d)
  obtain k' ms' where e: "e = (k', ms')" by (cases e)
  with Cons show ?case by (cases ms') (auto simp: build_single_Cons)
qed

lemma keys_build_single:
  "map fst (build_single d) = map fst [e \<leftarrow> d. snd e \<noteq> []]"
proof (induction d)
  case Nil
  show ?case by (simp add: build_single_def List.map_filter_simps)
next
  case (Cons e d)
  obtain k' ms' where e: "e = (k', ms')" by (cases e)
  with Cons show ?case by (cases ms') (auto simp: build_single_Cons)
qed

lemma distinct_build_single:
  "distinct (map fst d) \<Longrightarrow> distinct (map fst (build_single d))"
  by (simp add: keys_build_single distinct_map_filter)

subsection \<open>Sorting by key keeps the keys apart\<close>

lemma distinct_map_insort_key:
  "distinct (map f (insort_key f x xs)) \<longleftrightarrow> f x \<notin> set (map f xs) \<and> distinct (map f xs)"
proof (induction xs)
  case Nil
  show ?case by simp
next
  case (Cons y ys)
  show ?case
  proof (cases "f x \<le> f y")
    case True
    then show ?thesis by simp
  next
    case False
    have "set (map f (insort_key f x ys)) = insert (f x) (set (map f ys))"
      by (simp add: set_insort_key)
    with False Cons show ?thesis by auto
  qed
qed

lemma distinct_map_sort_key:
  "distinct (map f xs) \<Longrightarrow> distinct (map f (sort_key f xs))"
proof (induction xs)
  case Nil
  show ?case by simp
next
  case (Cons x xs)
  then have "distinct (map f (sort_key f xs))" and "f x \<notin> set (map f xs)" by simp_all
  moreover have "set (map f (sort_key f xs)) = set (map f xs)" by simp
  ultimately show ?case by (simp add: sort_key_simps distinct_map_insort_key del: set_map)
qed

subsection \<open>The way through \<open>main\<close> to the cache\<close>

lemma with_single_cache_loaders:
  "CellTowerTable_from_csv (with_single_cache dumps env) = CellTowerTable_from_csv env"
  "GigaSchoolTable_from_csv (with_single_cache dumps env) = GigaSchoolTable_from_csv env"
  "VectorizedDistanceModel_run_chunks (with_single_cache dumps env)
     = VectorizedDistanceModel_run_chunks env"
  by (simp_all add: with_single_cache_def)

lemma main_returns:
  assumes "parse_args cl = Inr a"
    and "is_file w (path_join (workspace_directory a) ''cellular.csv'')"
    and "main env cl w = (Inr (), w')"
  shows "\<exists>towers schools dists w1.
           CellTowerTable_from_csv env (files w)
             (path_join (workspace_directory a) ''cellular.csv'') = Inr towers
         \<and> GigaSchoolTable_from_csv env (files w)
             (path_join (workspace_directory a) ''schools.csv'') = Inr schools
         \<and> VectorizedDistanceModel_run_chunks env (distance_model a)
             (to_coordinates
                (if include_connected a then schools else [s \<leftarrow> schools. \<not> connected s]),
              tower_to_coordinates towers)
             (n_chunks a) = Inr dists
         \<and> files w1 = files w \<and> dirs w1 = dirs w
         \<and> write_cache env a dists w1 = (Inr (), w')"
proof -
  from assms obtain towers schools where
    t: "CellTowerTable_from_csv env (files w)
          (path_join (workspace_directory a) ''cellular.csv'') = Inr towers"
    and s: "GigaSchoolTable_from_csv env (files w)
          (path_join (workspace_directory a) ''schools.csv'') = Inr schools"
    by (auto simp: main_def split: sum.splits)
  obtain queried w1 where sel: "select_schools a schools w = (queried, w1)"
    by (cases "select_schools a schools w")
  then have w1: "files w1 = files w" "dirs w1 = dirs w"
    and q: "queried = (if include_connected a then schools else [s \<leftarrow> schools. \<not> connected s])"
    by (auto simp: select_schools_def LOGGER_info_def split: if_splits)
  from assms t s sel
  have "build_and_write env a (to_coordinates queried, tower_to_coordinates towers) w1
          = (Inr (), w')"
    by (simp add: main_def)
  then obtain dists where
    "VectorizedDistanceModel_run_chunks env (distance_model a)
       (to_coordinates queried, tower_to_coordinates towers) (n_chunks a) = Inr dists"
    and "write_cache env a dists w1 = (Inr (), w')"
    by (auto simp: build_and_write_def split: sum.splits)
  then have "VectorizedDistanceModel_run_chunks env (distance_model a)
       (to_coordinates
          (if include_connected a then schools else [s \<leftarrow> schools. \<not> connected s]),
        tower_to_coordinates towers) (n_chunks a) = Inr dists"
    and "write_cache env a dists w1 = (Inr (), w')"
    unfolding q by simp_all
  with t s w1 show ?thesis
    by (intro exI conjI) assumption+
qed

subsection \<open>Claims\<close>

text \<open>
  C5, as the claim is written: "for every successful run the persisted
  artifact is a single-lookup cache". The run on a workspace without
  \<open>cellular.csv\<close> returns normally, and the one file it leaves is an empty
  \<open>cellular.csv\<close>: no cache is persisted.
\<close>

theorem run_without_cellular_table_persists_no_cache:
  "main (with_single_cache example_dumps example_env) example_cli empty_world =
     (Inr (),
      \<lparr>files = [''ws/cellular.csv'' \<mapsto> ''''], dirs = {''ws''},
       logger = [(WARNING, ''Cell tower file not found in ws, creating empty file.'')]\<rparr>)"
  by (simp add: main_def parse_args_def example_cli_def empty_world_def is_file_def
        path_join_def open_append_close_def LOGGER_warning_def)

text \<open>
  C5, amended. For every run that finds \<open>cellular.csv\<close> in the workspace and
  returns normally, the two tables were loaded, the engine was run on the
  coordinates of the queried schools and of the towers, and the one file
  written is \<open>cellular<suffix>.json\<close>. It holds the JSON object of a
  single-lookup cache built from the neighbour lists the engine returned on
  these two collections: its keys are sorted, a source identifier is a key
  exactly when the engine gave it a neighbour list that is not empty, its
  value is then the one pair of \<open>target_id\<close> and \<open>distance_meters\<close> of
  the first entry of that list, and no key occurs twice when none does in
  the mapping of the engine.
\<close>

theorem persisted_cache_is_single_lookup:
  assumes "parse_args cl = Inr a"
    and "is_file w (path_join (workspace_directory a) ''cellular.csv'')"
    and "main (with_single_cache dumps env) cl w = (Inr (), w')"
  shows "\<exists>towers schools dists entries.
           CellTowerTable_from_csv env (files w)
             (path_join (workspace_directory a) ''cellular.csv'') = Inr towers
         \<and> GigaSchoolTable_from_csv env (files w)
             (path_join (workspace_directory a) ''schools.csv'') = Inr schools
         \<and> VectorizedDistanceModel_run_chunks env (distance_model a)
             (to_coordinates
                (if include_connected a then schools else [s \<leftarrow> schools. \<not> connected s]),
              tower_to_coordinates towers)
             (n_chunks a) = Inr dists
         \<and> files w' =
             (files w)(path_join (workspace_directory a) (''cellular'' @ file_suffix a @ ''.json'')
                        \<mapsto> dumps (JObject entries))
         \<and> dirs w' = dirs w
         \<and> sorted (map fst entries)
         \<and> (\<forall>k v. (k, v) \<in> set entries \<longleftrightarrow>
                (\<exists>m ms. (k, m # ms) \<in> set dists
                   \<and> v = JObject [(''target_id'', JString (target_id m)),
                                  (''distance_meters'', JNumber (distance_meters m))]))
         \<and> (distinct (map fst dists) \<longrightarrow> distinct (map fst entries))"
proof -
  from main_returns [OF assms] obtain towers schools dists w1 where
    t: "CellTowerTable_from_csv env (files w)
          (path_join (workspace_directory a) ''cellular.csv'') = Inr towers"
    and sc: "GigaSchoolTable_from_csv env (files w)
          (path_join (workspace_directory a) ''schools.csv'') = Inr schools"
    and run: "VectorizedDistanceModel_run_chunks env (distance_model a)
             (to_coordinates
                (if include_connected a then schools else [s \<leftarrow> schools. \<not> connected s]),
              tower_to_coordinates towers)
             (n_chunks a) = Inr dists"
    and w1: "files w1 = files w" "dirs w1 = dirs w"
    and wr: "write_cache (with_single_cache dumps env) a dists w1 = (Inr (), w')"
    unfolding with_single_cache_loaders by (elim exE conjE) (rule that)
  let ?c = "sort_key fst (build_single dists)"
  let ?entries = "map (\<lambda>(k, m). (k, match_json m)) ?c"
  from wr have w': "w' = write_file
        (path_join (workspace_directory a) (''cellular'' @ file_suffix a @ ''.json''))
        (dumps (cache_json (build_single dists))) w1"
    by (simp add: write_cache_def with_single_cache_def)
  have f: "files w' =
      (files w)(path_join (workspace_directory a) (''cellular'' @ file_suffix a @ ''.json'')
                 \<mapsto> dumps (JObject ?entries))"
    and d': "dirs w' = dirs w"
    by (simp_all add: w' w1 write_file_def cache_json_def)
  have keys: "map fst ?entries = map fst ?c"
    by (simp add: case_prod_beta)
  have s: "sorted (map fst ?entries)"
    unfolding keys by (rule sorted_sort_key)
  have m: "(k, v) \<in> set ?entries \<longleftrightarrow>
             (\<exists>m ms. (k, m # ms) \<in> set dists
                \<and> v = JObject [(''target_id'', JString (target_id m)),
                               (''distance_meters'', JNumber (distance_meters m))])" for k v
  proof -
    have "(k, v) \<in> set ?entries \<longleftrightarrow> (\<exists>m. (k, m) \<in> set (build_single dists) \<and> v = match_json m)"
      by force
    then show ?thesis by (auto simp: set_build_single match_json_def)
  qed
  have d: "distinct (map fst ?entries)" if "distinct (map fst dists)"
    unfolding keys using that by (intro distinct_map_sort_key distinct_build_single)
  have m': "\<forall>k v. (k, v) \<in> set ?entries \<longleftrightarrow>
             (\<exists>m ms. (k, m # ms) \<in> set dists
                \<and> v = JObject [(''target_id'', JString (target_id m)),
                               (''distance_meters'', JNumber (distance_meters m))])"
    using m by blast
  have d'': "distinct (map fst dists) \<longrightarrow> distinct (map fst ?entries)"
    using d by blast
  from t sc run f d' s m' d'' show ?thesis
    by (intro exI conjI) assumption+
qed

theorem persisted_cache_witness:
  "parse_args example_cli = Inr example_args
   \<and> is_file example_world (path_join (workspace_directory example_args) ''cellular.csv'')
   \<and> main (with_single_cache example_dumps example_env) example_cli example_world =
       (Inr (),
        \<lparr>files = [''ws/cellular.csv'' \<mapsto> ''c'', ''ws/schools.csv'' \<mapsto> ''s'',
                  ''ws/cellular_cache.json'' \<mapsto> ''B;''],
         dirs = {''ws''},
         logger = [(INFO, ''Removing schools that are already connected from school set'')]\<rparr>)
   \<and> (\<exists>towers schools dists entries.
         CellTowerTable_from_csv example_env (files example_world)
           (path_join (workspace_directory example_args) ''cellular.csv'') = Inr towers
       \<and> GigaSchoolTable_from_csv example_env (files example_world)
           (path_join (workspace_directory example_args) ''schools.csv'') = Inr schools
       \<and> VectorizedDistanceModel_run_chunks example_env (distance_model example_args)
           (to_coordinates
              (if include_connected example_args then schools
               else [s \<leftarrow> schools. \<not> connected s]),
            tower_to_coordinates towers)
           (n_chunks example_args) = Inr dists
       \<and> [''ws/cellular.csv'' \<mapsto> ''c'', ''ws/schools.csv'' \<mapsto> ''s'',
           ''ws/cellular_cache.json'' \<mapsto> ''B;'']
           = (files example_world)
               (path_join (workspace_directory example_args)
                  (''cellular'' @ file_suffix example_args @ ''.json'')
                \<mapsto> example_dumps (JObject entries))
       \<and> {''ws''} = dirs example_world
       \<and> sorted (map fst entries)
       \<and> (\<forall>k v. (k, v) \<in> set entries \<longleftrightarrow>
              (\<exists>m ms. (k, m # ms) \<in> set dists
                 \<and> v = JObject [(''target_id'', JString (target_id m)),
                                (''distance_meters'', JNumber (distance_meters m))]))
       \<and> (distinct (map fst dists) \<longrightarrow> distinct (map fst entries)))"
proof -
  have p: "parse_args example_cli = Inr example_args"
    by (simp add: parse_args_def example_cli_def example_args_def)
  have i: "is_file example_world (path_join (workspace_directory example_args) ''cellular.csv'')"
    by (simp add: is_file_def example_world_def example_args_def path_join_def)
  have run: "main (with_single_cache example_dumps example_env) example_cli example_world =
       (Inr (),
        \<lparr>files = [''ws/cellular.csv'' \<mapsto> ''c'', ''ws/schools.csv'' \<mapsto> ''s'',
                  ''ws/cellular_cache.json'' \<mapsto> ''B;''],
         dirs = {''ws''},
         logger = [(INFO, ''Removing schools that are already connected from school set'')]\<rparr>)"
    by (simp add: main_def parse_args_def example_cli_def example_world_def example_env_def
          with_single_cache_def is_file_def path_join_def select_schools_def
          build_and_write_def write_cache_def write_file_def LOGGER_info_def
          build_single_def List.map_filter_simps cache_json_def example_dumps_def)
  from persisted_cache_is_single_lookup [OF p i run] p i run show ?thesis
    by simp
qed

end
